theory Spec2Isabelle
  imports Complex_Main "HOL-Library.Word" "HOL-Library.Multiset"
begin

section \<open>Conventions of the embedding\<close>

text \<open>
  The C++ sources compute with \<^verbatim>\<open>double\<close>. The embedding reads every \<^verbatim>\<open>double\<close> as a
  mathematical real number and \<^verbatim>\<open>M_PI\<close> as \<open>pi\<close>: rounding, infinities and NaN are outside
  the model, with one exception. The conversion of a colour channel to a byte truncates
  the product \<^verbatim>\<open>r * 255\<close>, and truncation turns a rounding error of one unit in the last
  place into a different byte; there the product is rounded as binary64 rounds it, by
  \<open>fl64\<close>. HOL's division, square root and logarithm are total, so where a property
  depends on the value of a quotient or of a root, the theorem carries the hypothesis
  that keeps the divisor away from zero and the radicand from being negative, or proves
  that they are.
  \<^verbatim>\<open>std::pow(x, n)\<close> with an integral literal exponent is the power \<open>x ^ n\<close>;
  \<^verbatim>\<open>std::pow(x, y)\<close> with a fractional exponent is \<open>x powr y\<close>, which agrees with the
  C function for every base \<open>x \<ge> 0\<close> and exponent \<open>y > 0\<close>, and for \<open>x > 0\<close> and any \<open>y\<close>.
  A \<^verbatim>\<open>std::array<double, 8>\<close> is a list of reals of length 8.
  Record fields carry a prefix, because a field name is a global constant in HOL; a
  constructor \<^verbatim>\<open>T(...)\<close> is the function \<open>T_novo\<close>.
\<close>

section \<open>constantes.hpp\<close>

definition C :: real where
  "C = 299792458"

definition C2 :: real where
  "C2 = C * C"

definition G :: real where
  "G = 6.67430 / 10 ^ 11"

definition MASSA_SOL :: real where
  "MASSA_SOL = 1.98892 * 10 ^ 30"

section \<open>schwarzschild.hpp\<close>

record Coordenadas =
  pos_t :: real
  pos_r :: real
  pos_theta :: real
  pos_phi :: real

record Quadrivelocidade =
  vel_u_t :: real
  vel_u_r :: real
  vel_u_theta :: real
  vel_u_phi :: real

record MetricaSchwarzschild =
  met_M :: real
  met_rs :: real
  met_massa_kg :: real

definition MetricaSchwarzschild_novo :: "real \<Rightarrow> MetricaSchwarzschild" where
  "MetricaSchwarzschild_novo massa_solar =
     (let massa_kg = massa_solar * MASSA_SOL;
          M = G * massa_kg / C2
      in \<lparr>met_M = M, met_rs = 2 * M, met_massa_kg = massa_kg\<rparr>)"

definition g_tt :: "MetricaSchwarzschild \<Rightarrow> real \<Rightarrow> real" where
  "g_tt m r = (if r \<le> met_rs m then 0 else - (1 - met_rs m / r))"

definition g_rr :: "MetricaSchwarzschild \<Rightarrow> real \<Rightarrow> real" where
  "g_rr m r = (if r \<le> met_rs m then 10 ^ 10 else 1 / (1 - met_rs m / r))"

definition g_theta_theta :: "MetricaSchwarzschild \<Rightarrow> real \<Rightarrow> real" where
  "g_theta_theta m r = r * r"

definition g_phi_phi :: "MetricaSchwarzschild \<Rightarrow> real \<Rightarrow> real \<Rightarrow> real" where
  "g_phi_phi m r theta = r * r * sin theta * sin theta"

definition christoffel_t_tr :: "MetricaSchwarzschild \<Rightarrow> real \<Rightarrow> real" where
  "christoffel_t_tr m r =
     (if r \<le> met_rs m then 0 else met_rs m / (2 * r * (r - met_rs m)))"

definition christoffel_r_tt :: "MetricaSchwarzschild \<Rightarrow> real \<Rightarrow> real" where
  "christoffel_r_tt m r =
     (if r \<le> met_rs m then 0 else met_rs m * (r - met_rs m) / (2 * r * r * r))"

definition christoffel_r_rr :: "MetricaSchwarzschild \<Rightarrow> real \<Rightarrow> real" where
  "christoffel_r_rr m r =
     (if r \<le> met_rs m then 0 else - met_rs m / (2 * r * (r - met_rs m)))"

definition christoffel_r_theta_theta :: "MetricaSchwarzschild \<Rightarrow> real \<Rightarrow> real" where
  "christoffel_r_theta_theta m r = - (r - met_rs m)"

definition christoffel_r_phi_phi :: "MetricaSchwarzschild \<Rightarrow> real \<Rightarrow> real \<Rightarrow> real" where
  "christoffel_r_phi_phi m r theta = (let s = sin theta in - (r - met_rs m) * s * s)"

definition christoffel_theta_r_theta :: "MetricaSchwarzschild \<Rightarrow> real \<Rightarrow> real" where
  "christoffel_theta_r_theta m r = 1 / r"

definition christoffel_theta_phi_phi :: "MetricaSchwarzschild \<Rightarrow> real \<Rightarrow> real" where
  "christoffel_theta_phi_phi m theta = - sin theta * cos theta"

definition christoffel_phi_r_phi :: "MetricaSchwarzschild \<Rightarrow> real \<Rightarrow> real" where
  "christoffel_phi_r_phi m r = 1 / r"

definition christoffel_phi_theta_phi :: "MetricaSchwarzschild \<Rightarrow> real \<Rightarrow> real" where
  "christoffel_phi_theta_phi m theta = 1 / tan theta"

definition derivadas_geodesica ::
    "MetricaSchwarzschild \<Rightarrow> Coordenadas \<Rightarrow> Quadrivelocidade \<Rightarrow> real list" where
  "derivadas_geodesica m pos vel =
     (let r = pos_r pos; theta = pos_theta pos in
      [ vel_u_t vel,
        vel_u_r vel,
        vel_u_theta vel,
        vel_u_phi vel,
        - 2 * christoffel_t_tr m r * vel_u_t vel * vel_u_r vel,
        - christoffel_r_tt m r * vel_u_t vel * vel_u_t vel
          - christoffel_r_rr m r * vel_u_r vel * vel_u_r vel
          - christoffel_r_theta_theta m r * vel_u_theta vel * vel_u_theta vel
          - christoffel_r_phi_phi m r theta * vel_u_phi vel * vel_u_phi vel,
        - 2 * christoffel_theta_r_theta m r * vel_u_r vel * vel_u_theta vel
          - christoffel_theta_phi_phi m theta * vel_u_phi vel * vel_u_phi vel,
        - 2 * christoffel_phi_r_phi m r * vel_u_r vel * vel_u_phi vel
          - 2 * christoffel_phi_theta_phi m theta * vel_u_theta vel * vel_u_phi vel ])"

definition raio_schwarzschild :: "MetricaSchwarzschild \<Rightarrow> real" where
  "raio_schwarzschild m = met_rs m"

section \<open>integrador.hpp\<close>

record EstadoGeodesica =
  est_t :: real
  est_r :: real
  est_theta :: real
  est_phi :: real
  est_u_t :: real
  est_u_r :: real
  est_u_theta :: real
  est_u_phi :: real

definition como_array :: "EstadoGeodesica \<Rightarrow> real list" where
  "como_array e =
     [est_t e, est_r e, est_theta e, est_phi e,
      est_u_t e, est_u_r e, est_u_theta e, est_u_phi e]"

definition de_array :: "real list \<Rightarrow> EstadoGeodesica" where
  "de_array arr =
     \<lparr>est_t = arr ! 0, est_r = arr ! 1, est_theta = arr ! 2, est_phi = arr ! 3,
      est_u_t = arr ! 4, est_u_r = arr ! 5, est_u_theta = arr ! 6, est_u_phi = arr ! 7\<rparr>"

record IntegradorGeodesico =
  int_metrica :: MetricaSchwarzschild
  int_passo :: real
  int_r_min :: real

definition IntegradorGeodesico_novo ::
    "MetricaSchwarzschild \<Rightarrow> real \<Rightarrow> IntegradorGeodesico" where
  "IntegradorGeodesico_novo metrica passo =
     \<lparr>int_metrica = metrica, int_passo = passo,
      int_r_min = raio_schwarzschild metrica * 1.001\<rparr>"

definition set_passo :: "IntegradorGeodesico \<Rightarrow> real \<Rightarrow> IntegradorGeodesico" where
  "set_passo I p = I\<lparr>int_passo := p\<rparr>"

text \<open>The lambda \<^verbatim>\<open>derivs\<close> of \<^verbatim>\<open>passo_rk4\<close>: it splits the array into position and velocity.\<close>

definition derivs :: "IntegradorGeodesico \<Rightarrow> real list \<Rightarrow> real list" where
  "derivs I y =
     derivadas_geodesica (int_metrica I)
       \<lparr>pos_t = y ! 0, pos_r = y ! 1, pos_theta = y ! 2, pos_phi = y ! 3\<rparr>
       \<lparr>vel_u_t = y ! 4, vel_u_r = y ! 5, vel_u_theta = y ! 6, vel_u_phi = y ! 7\<rparr>"

definition passo_rk4 :: "IntegradorGeodesico \<Rightarrow> EstadoGeodesica \<Rightarrow> EstadoGeodesica" where
  "passo_rk4 I estado =
     (let arr = como_array estado;
          k1 = derivs I arr;
          y2 = map (\<lambda>i. arr ! i + 0.5 * int_passo I * k1 ! i) [0..<8];
          k2 = derivs I y2;
          y3 = map (\<lambda>i. arr ! i + 0.5 * int_passo I * k2 ! i) [0..<8];
          k3 = derivs I y3;
          y4 = map (\<lambda>i. arr ! i + int_passo I * k3 ! i) [0..<8];
          k4 = derivs I y4;
          novo = map (\<lambda>i. arr ! i
                    + int_passo I * (k1 ! i + 2 * k2 ! i + 2 * k3 ! i + k4 ! i) / 6) [0..<8]
      in de_array novo)"

section \<open>The Runge-Kutta step as the specification words it\<close>

text \<open>
  The specification's side of the comparison. Vectors are lists; \<open>vadd\<close> adds two of
  them componentwise and \<open>vscale\<close> multiplies one by a scalar.
\<close>

definition vadd :: "real list \<Rightarrow> real list \<Rightarrow> real list" where
  "vadd xs ys = map2 (+) xs ys"

definition vscale :: "real \<Rightarrow> real list \<Rightarrow> real list" where
  "vscale c xs = map ((*) c) xs"

definition rk4_spec :: "real \<Rightarrow> (real list \<Rightarrow> real list) \<Rightarrow> real list \<Rightarrow> real list" where
  "rk4_spec h f s =
     (let k1 = f s;
          k2 = f (vadd s (vscale (0.5 * h) k1));
          k3 = f (vadd s (vscale (0.5 * h) k2));
          k4 = f (vadd s (vscale h k3))
      in vadd s (vscale (h / 6) (vadd k1 (vadd (vscale 2 k2) (vadd (vscale 2 k3) k4)))))"

text \<open>
  The four states at which one step evaluates the right-hand side \<open>f\<close>: the state itself
  and the three intermediate ones.
\<close>

definition estagios :: "real \<Rightarrow> (real list \<Rightarrow> real list) \<Rightarrow> real list \<Rightarrow> real list list" where
  "estagios h f s =
     (let k1 = f s;
          y2 = vadd s (vscale (0.5 * h) k1);
          k2 = f y2;
          y3 = vadd s (vscale (0.5 * h) k2);
          k3 = f y3;
          y4 = vadd s (vscale h k3)
      in [s, y2, y3, y4])"

text \<open>
  The connection as the table of the specification gives it, for a Schwarzschild radius
  \<open>r\<^sub>s\<close>, with the indices 0 to 3 for \<open>t, r, \<theta>, \<phi>\<close>: each of the nine entries by its
  formula, each symmetric pair at both orders of its lower indices, and zero elsewhere.
\<close>

definition Gamma_tabela :: "real \<Rightarrow> real \<Rightarrow> real \<Rightarrow> nat \<Rightarrow> nat \<Rightarrow> nat \<Rightarrow> real" where
  "Gamma_tabela rs r theta mu al be =
     (if mu = 0 \<and> ((al = 0 \<and> be = 1) \<or> (al = 1 \<and> be = 0)) then rs / (2 * r * (r - rs))
      else if mu = 1 \<and> al = 0 \<and> be = 0 then rs * (r - rs) / (2 * r ^ 3)
      else if mu = 1 \<and> al = 1 \<and> be = 1 then - rs / (2 * r * (r - rs))
      else if mu = 1 \<and> al = 2 \<and> be = 2 then - (r - rs)
      else if mu = 1 \<and> al = 3 \<and> be = 3 then - (r - rs) * (sin theta)\<^sup>2
      else if mu = 2 \<and> ((al = 1 \<and> be = 2) \<or> (al = 2 \<and> be = 1)) then 1 / r
      else if mu = 2 \<and> al = 3 \<and> be = 3 then - sin theta * cos theta
      else if mu = 3 \<and> ((al = 1 \<and> be = 3) \<or> (al = 3 \<and> be = 1)) then 1 / r
      else if mu = 3 \<and> ((al = 2 \<and> be = 3) \<or> (al = 3 \<and> be = 2)) then cot theta
      else 0)"

text \<open>
  The same table with the three entries \<open>\<Gamma>\<^sup>t\<^sub>t\<^sub>r\<close>, \<open>\<Gamma>\<^sup>r\<^sub>t\<^sub>t\<close> and \<open>\<Gamma>\<^sup>r\<^sub>r\<^sub>r\<close> put to zero at and
  inside the horizon, \<open>r \<le> r\<^sub>s\<close>.
\<close>

definition Gamma_guardada :: "real \<Rightarrow> real \<Rightarrow> real \<Rightarrow> nat \<Rightarrow> nat \<Rightarrow> nat \<Rightarrow> real" where
  "Gamma_guardada rs r theta mu al be =
     (if r \<le> rs \<and> ((mu = 0 \<and> ((al = 0 \<and> be = 1) \<or> (al = 1 \<and> be = 0)))
                   \<or> (mu = 1 \<and> al = 0 \<and> be = 0) \<or> (mu = 1 \<and> al = 1 \<and> be = 1))
      then 0
      else Gamma_tabela rs r theta mu al be)"

text \<open>
  The acceleration \<open>a\<^sup>\<mu> = - \<Gamma>\<^sup>\<mu>\<^sub>\<alpha>\<^sub>\<beta> u\<^sup>\<alpha> u\<^sup>\<beta>\<close> for a connection \<open>\<Gamma>\<close>, summed over all sixteen
  index pairs, and the right-hand side of the geodesic equation on the 8-vector
  \<open>(t, r, \<theta>, \<phi>, u\<^sup>t, u\<^sup>r, u\<^sup>\<theta>, u\<^sup>\<phi>)\<close>.
\<close>

definition aceleracao ::
    "(real \<Rightarrow> real \<Rightarrow> nat \<Rightarrow> nat \<Rightarrow> nat \<Rightarrow> real) \<Rightarrow> real list \<Rightarrow> nat \<Rightarrow> real" where
  "aceleracao Gam y mu =
     - (\<Sum>al < 4. \<Sum>be < 4. Gam (y ! 1) (y ! 2) mu al be * y ! (4 + al) * y ! (4 + be))"

definition f_geodesica ::
    "(real \<Rightarrow> real \<Rightarrow> nat \<Rightarrow> nat \<Rightarrow> nat \<Rightarrow> real) \<Rightarrow> real list \<Rightarrow> real list" where
  "f_geodesica Gam y =
     [y ! 4, y ! 5, y ! 6, y ! 7,
      aceleracao Gam y 0, aceleracao Gam y 1, aceleracao Gam y 2, aceleracao Gam y 3]"

section \<open>disco_acrecao.hpp\<close>

record CorRGB =
  cor_r :: real
  cor_g :: real
  cor_b :: real

text \<open>\<^verbatim>\<open>CorRGB::operator*\<close> and \<^verbatim>\<open>CorRGB::clamp\<close>.\<close>

definition cor_vezes :: "CorRGB \<Rightarrow> real \<Rightarrow> CorRGB" where
  "cor_vezes c s = \<lparr>cor_r = cor_r c * s, cor_g = cor_g c * s, cor_b = cor_b c * s\<rparr>"

definition cor_clamp :: "CorRGB \<Rightarrow> CorRGB" where
  "cor_clamp c =
     \<lparr>cor_r = max 0 (min 1 (cor_r c)),
      cor_g = max 0 (min 1 (cor_g c)),
      cor_b = max 0 (min 1 (cor_b c))\<rparr>"

record DiscoAcrecao =
  dis_massa_bh :: real
  dis_taxa_acrecao :: real
  dis_raio_interno :: real
  dis_raio_externo :: real
  dis_spin :: real

definition SIGMA_SB :: real where
  "SIGMA_SB = 5.670374419 / 10 ^ 8"

definition DiscoAcrecao_novo :: "real \<Rightarrow> real \<Rightarrow> real \<Rightarrow> DiscoAcrecao" where
  "DiscoAcrecao_novo massa_solar taxa_acrecao_eddington spin =
     (let massa_bh = massa_solar * MASSA_SOL;
          spin' = max 0 (min 0.998 spin);
          rs = 2 * G * massa_bh / C2;
          raio_interno =
            (if spin' < 0.01 then 3 * rs
             else rs * (3 + spin' - sqrt ((3 - spin') * (1 + spin'))));
          raio_externo = 500 * rs;
          luminosidade_eddington = 1.26 * 10 ^ 38 * massa_solar;
          eficiencia = 0.1;
          taxa_acrecao = taxa_acrecao_eddington * luminosidade_eddington / (eficiencia * C2)
      in \<lparr>dis_massa_bh = massa_bh, dis_taxa_acrecao = taxa_acrecao,
          dis_raio_interno = raio_interno, dis_raio_externo = raio_externo,
          dis_spin = spin'\<rparr>)"

definition temperatura :: "DiscoAcrecao \<Rightarrow> real \<Rightarrow> real" where
  "temperatura d raio =
     (if raio < dis_raio_interno d \<or> raio > dis_raio_externo d then 0
      else
        (let T_estrela =
               (3 * G * dis_massa_bh d * dis_taxa_acrecao d
                  / (8 * pi * SIGMA_SB * dis_raio_interno d ^ 3)) powr 0.25;
             x = raio / dis_raio_interno d;
             fator_radial = x powr (- 0.75);
             fator_borda = (1 - sqrt (1 / x)) powr 0.25
         in T_estrela * fator_radial * fator_borda))"

definition cor_corpo_negro :: "DiscoAcrecao \<Rightarrow> real \<Rightarrow> CorRGB" where
  "cor_corpo_negro d T =
     (if T \<le> 0 then \<lparr>cor_r = 0, cor_g = 0, cor_b = 0\<rparr>
      else
        (let t = T / 100;
             r = (if t \<le> 66 then 1
                  else 1.29293618606274 * (t - 60) powr (- 0.1332047592));
             g = (if t \<le> 66 then 0.390081578769871 * ln t - 0.631841443788627
                  else 1.12989086089529 * (t - 60) powr (- 0.0755148492));
             b = (if t \<ge> 66 then 1
                  else if t \<le> 19 then 0
                  else 0.543206789110196 * ln (t - 10) - 1.19625408914)
         in cor_clamp \<lparr>cor_r = r, cor_g = g, cor_b = b\<rparr>))"

definition fator_redshift :: "DiscoAcrecao \<Rightarrow> real \<Rightarrow> real" where
  "fator_redshift d raio =
     (let rs = 2 * G * dis_massa_bh d / C2 in
      if raio \<le> rs then 0 else sqrt (1 - rs / raio))"

definition velocidade_kepleriana :: "DiscoAcrecao \<Rightarrow> real \<Rightarrow> real" where
  "velocidade_kepleriana d raio = sqrt (G * dis_massa_bh d / raio)"

definition fator_doppler :: "DiscoAcrecao \<Rightarrow> real \<Rightarrow> real \<Rightarrow> real" where
  "fator_doppler d raio angulo_observador =
     (let v = velocidade_kepleriana d raio;
          beta = v / C;
          gamma = 1 / sqrt (1 - beta * beta);
          cos_phi = cos angulo_observador
      in 1 / (gamma * (1 - beta * cos_phi)))"

definition intensidade_observada :: "DiscoAcrecao \<Rightarrow> real \<Rightarrow> real \<Rightarrow> CorRGB" where
  "intensidade_observada d raio angulo_obs =
     (let T = temperatura d raio in
      if T \<le> 0 then \<lparr>cor_r = 0, cor_g = 0, cor_b = 0\<rparr>
      else
        (let cor = cor_corpo_negro d T;
             D = fator_doppler d raio angulo_obs;
             z = fator_redshift d raio;
             fator_total = (D * z) ^ 4
         in cor_vezes cor fator_total))"

definition no_disco :: "DiscoAcrecao \<Rightarrow> real \<Rightarrow> bool" where
  "no_disco d raio \<longleftrightarrow> raio \<ge> dis_raio_interno d \<and> raio \<le> dis_raio_externo d"

section \<open>ray_tracer.hpp: data\<close>

record Pixel =
  px_r :: real
  px_g :: real
  px_b :: real

definition pixel_clamp :: "Pixel \<Rightarrow> Pixel" where
  "pixel_clamp p =
     \<lparr>px_r = max 0 (min 1 (px_r p)),
      px_g = max 0 (min 1 (px_g p)),
      px_b = max 0 (min 1 (px_b p))\<rparr>"

text \<open>
  Rounding of a real number to IEEE 754 binary64, to nearest with ties to the even
  significand. The exponent of \<open>x\<close> is \<open>\<lfloor>log\<^sub>2 |x|\<rfloor>\<close>, not below \<open>-1022\<close> (below that the
  numbers are subnormal and equally spaced); one unit in the last place is \<open>2\<close> to the
  exponent minus 52; \<open>x\<close> is rounded to the nearest multiple of that unit. Overflow to
  infinity is not modelled: the function is used on products in \<open>[0, 255]\<close>.
\<close>

definition expoente :: "real \<Rightarrow> int" where
  "expoente x = max (- 1022) \<lfloor>log 2 \<bar>x\<bar>\<rfloor>"

definition ulp :: "real \<Rightarrow> real" where
  "ulp x = 2 powi (expoente x - 52)"

definition meio_par :: "real \<Rightarrow> int" where
  "meio_par q =
     (let n = \<lfloor>q\<rfloor>; d = q - of_int n
      in if d < 1 / 2 then n
         else if 1 / 2 < d then n + 1
         else if even n then n else n + 1)"

definition fl64 :: "real \<Rightarrow> real" where
  "fl64 x = (if x = 0 then 0 else of_int (meio_par (x / ulp x)) * ulp x)"

text \<open>
  \<^verbatim>\<open>static_cast<uint8_t>(x)\<close> on a \<^verbatim>\<open>double\<close> discards the fractional part (truncation
  towards zero). The cast is defined by C++ only for a truncated value in 0..255, which
  is the case after \<^verbatim>\<open>clamp\<close>; elsewhere the model reduces modulo 256.
\<close>

definition para_uint8 :: "real \<Rightarrow> 8 word" where
  "para_uint8 x = word_of_int (if 0 \<le> x then \<lfloor>x\<rfloor> else \<lceil>x\<rceil>)"

definition r_byte :: "Pixel \<Rightarrow> 8 word" where
  "r_byte p = para_uint8 (fl64 (px_r p * 255))"

definition g_byte :: "Pixel \<Rightarrow> 8 word" where
  "g_byte p = para_uint8 (fl64 (px_g p * 255))"

definition b_byte :: "Pixel \<Rightarrow> 8 word" where
  "b_byte p = para_uint8 (fl64 (px_b p * 255))"

record Camera =
  cam_r_observador :: real
  cam_theta_observador :: real
  cam_fov_horizontal :: real
  cam_fov_vertical :: real
  cam_largura :: int
  cam_altura :: int

text \<open>The constructor \<^verbatim>\<open>Camera()\<close> with all its default arguments.\<close>

definition Camera_padrao :: Camera where
  "Camera_padrao =
     \<lparr>cam_r_observador = 100, cam_theta_observador = pi / 3,
      cam_fov_horizontal = pi / 4, cam_fov_vertical = pi / 4,
      cam_largura = 800, cam_altura = 600\<rparr>"

datatype Destino = HORIZONTE | DISCO | INFINITO | ERRO

text \<open>
  \<^verbatim>\<open>ResultadoRaio\<close> is declared without initialisers: the three impact fields hold no
  defined value until a branch assigns them, which the model writes as \<open>None\<close>. The colour
  starts as \<^verbatim>\<open>Pixel()\<close>, black.
\<close>

record ResultadoRaio =
  res_destino :: Destino
  res_r_impacto :: "real option"
  res_phi_impacto :: "real option"
  res_theta_impacto :: "real option"
  res_passos :: int
  res_cor :: Pixel

text \<open>
  The integration parameters and the background switch are private members with
  in-class initialisers that no member function assigns: they are constants of the class.
\<close>

definition passo_inicial :: real where
  "passo_inicial = 0.1"

definition max_passos :: int where
  "max_passos = 10000"

definition tolerancia_horizonte :: real where
  "tolerancia_horizonte = 1.001"

definition usar_fundo :: bool where
  "usar_fundo = True"

record RayTracer =
  rt_metrica :: MetricaSchwarzschild
  rt_disco :: DiscoAcrecao
  rt_camera :: Camera
  rt_rs :: real
  rt_num_threads :: int

definition RayTracer_novo :: "real \<Rightarrow> real \<Rightarrow> RayTracer" where
  "RayTracer_novo massa_solar taxa_eddington =
     (let metrica = MetricaSchwarzschild_novo massa_solar;
          disco = DiscoAcrecao_novo massa_solar taxa_eddington 0;
          rs = raio_schwarzschild metrica
      in \<lparr>rt_metrica = metrica, rt_disco = disco,
          rt_camera = Camera_padrao\<lparr>cam_r_observador := 100 * rs\<rparr>,
          rt_rs = rs, rt_num_threads = 4\<rparr>)"

definition set_camera :: "RayTracer \<Rightarrow> Camera \<Rightarrow> RayTracer" where
  "set_camera rt cam =
     rt\<lparr>rt_camera := cam\<lparr>cam_r_observador := cam_r_observador cam * rt_rs rt\<rparr>\<rparr>"

definition set_resolucao :: "RayTracer \<Rightarrow> int \<Rightarrow> int \<Rightarrow> RayTracer" where
  "set_resolucao rt largura altura =
     rt\<lparr>rt_camera := (rt_camera rt)\<lparr>cam_largura := largura, cam_altura := altura\<rparr>\<rparr>"

definition set_angulo_observador :: "RayTracer \<Rightarrow> real \<Rightarrow> RayTracer" where
  "set_angulo_observador rt theta =
     rt\<lparr>rt_camera := (rt_camera rt)\<lparr>cam_theta_observador := theta\<rparr>\<rparr>"

definition set_threads :: "RayTracer \<Rightarrow> int \<Rightarrow> RayTracer" where
  "set_threads rt n = rt\<lparr>rt_num_threads := max 1 n\<rparr>"

definition camera :: "RayTracer \<Rightarrow> Camera" where
  "camera rt = rt_camera rt"

section \<open>ray_tracer.hpp: the celestial background\<close>

text \<open>\<^verbatim>\<open>std::fmod(x, y)\<close>: \<open>x\<close> minus \<open>y\<close> times the quotient truncated towards zero.\<close>

definition fmod :: "real \<Rightarrow> real \<Rightarrow> real" where
  "fmod x y = x - y * of_int (if 0 \<le> x / y then \<lfloor>x / y\<rfloor> else \<lceil>x / y\<rceil>)"

text \<open>
  The two searches of \<^verbatim>\<open>cor_fundo\<close>, over the grid lines of latitude and of
  longitude; each returns the flag its \<^verbatim>\<open>for\<close> statement leaves behind.
\<close>

function laco_latitude :: "real \<Rightarrow> real \<Rightarrow> real \<Rightarrow> bool" where
  "laco_latitude espessura lat l =
     (if l \<le> pi / 2 then
        (if \<bar>lat - l\<bar> < espessura then True
         else laco_latitude espessura lat (l + pi / 12))
      else False)"
  by pat_completeness auto
termination
proof (relation "measure (\<lambda>(espessura, lat, l). nat (\<lfloor>(pi / 2 - l) / (pi / 12)\<rfloor> + 1))")
  show "wf (measure (\<lambda>(espessura, lat, l). nat (\<lfloor>(pi / 2 - l) / (pi / 12)\<rfloor> + 1)))"
    by simp
next
  fix espessura lat l :: real
  assume le: "l \<le> pi / 2"
  have eq: "(pi / 2 - (l + pi / 12)) / (pi / 12) = (pi / 2 - l) / (pi / 12) - 1"
    by (simp add: field_simps)
  define x where "x = (pi / 2 - l) / (pi / 12)"
  have "0 \<le> x"
    using le by (simp add: x_def)
  then have "0 \<le> \<lfloor>x\<rfloor>"
    by simp
  then have "nat (\<lfloor>x - 1\<rfloor> + 1) < nat (\<lfloor>x\<rfloor> + 1)"
    by simp
  then show "((espessura, lat, l + pi / 12), (espessura, lat, l))
      \<in> measure (\<lambda>(espessura, lat, l). nat (\<lfloor>(pi / 2 - l) / (pi / 12)\<rfloor> + 1))"
    unfolding in_measure prod.case eq x_def .
qed

function laco_longitude :: "real \<Rightarrow> real \<Rightarrow> real \<Rightarrow> bool" where
  "laco_longitude espessura lon l =
     (if l < 2 * pi then
        (let diff = \<bar>lon - l\<bar> in
         if diff < espessura \<or> (2 * pi - diff) < espessura then True
         else laco_longitude espessura lon (l + pi / 12))
      else False)"
  by pat_completeness auto
termination
proof (relation "measure (\<lambda>(espessura, lon, l). nat \<lceil>(2 * pi - l) / (pi / 12)\<rceil>)")
  show "wf (measure (\<lambda>(espessura, lon, l). nat \<lceil>(2 * pi - l) / (pi / 12)\<rceil>))"
    by simp
next
  fix espessura lon l diff :: real
  assume lt: "l < 2 * pi"
  have eq: "(2 * pi - (l + pi / 12)) / (pi / 12) = (2 * pi - l) / (pi / 12) - 1"
    by (simp add: field_simps)
  define x where "x = (2 * pi - l) / (pi / 12)"
  have "0 < x"
    using lt by (simp add: x_def)
  then have "0 < \<lceil>x\<rceil>"
    by simp
  then have "nat \<lceil>x - 1\<rceil> < nat \<lceil>x\<rceil>"
    by simp
  then show "((espessura, lon, l + pi / 12), (espessura, lon, l))
      \<in> measure (\<lambda>(espessura, lon, l). nat \<lceil>(2 * pi - l) / (pi / 12)\<rceil>)"
    unfolding in_measure prod.case eq x_def .
qed

definition cor_fundo :: "real \<Rightarrow> real \<Rightarrow> Pixel" where
  "cor_fundo theta phi_arg =
     (let phi1 = fmod phi_arg (2 * pi);
          phi = (if phi1 < 0 then phi1 + 2 * pi else phi1);
          espessura = 0.02;
          lat = theta - pi / 2;
          lon = phi;
          linha_lat = laco_latitude espessura lat (- pi / 2);
          linha_lon = laco_longitude espessura lon 0
      in if linha_lat \<or> linha_lon then
           (let h = lon / (2 * pi) in
            \<lparr>px_r = 0.2 + 0.3 * h, px_g = 0.1, px_b = 0.4 + 0.2 * (1 - h)\<rparr>)
         else
           (let seed = theta * 100 + phi * 57;
                estrela1 = sin (seed * 12345.6789);
                estrela2 = (estrela1 + 1) / 2;
                estrela = estrela2 ^ 100
            in \<lparr>px_r = 0.01 + 0.5 * estrela, px_g = 0.01 + 0.5 * estrela,
                px_b = 0.03 + 0.5 * estrela\<rparr>))"

section \<open>ray_tracer.hpp: tracing one ray\<close>

text \<open>
  \<^verbatim>\<open>tracar_raio\<close> in three pieces, in the order of its body: the initial photon state
  (lines 151 to 177), the correction of the polar angle that ends each iteration (lines
  232 to 240) and the loop (lines 184 to 245). The variable \<^verbatim>\<open>r_anterior\<close> is written
  and never read, so the model leaves it out.
\<close>

definition estado_inicial :: "RayTracer \<Rightarrow> real \<Rightarrow> real \<Rightarrow> EstadoGeodesica" where
  "estado_inicial rt alfa beta =
     (let r0 = cam_r_observador (rt_camera rt);
          theta0 = cam_theta_observador (rt_camera rt);
          phi0 = 0;
          t0 = 0;
          f = 1 - rt_rs rt / r0;
          u_t = 1 / f;
          u_theta = beta / r0;
          u_phi = alfa / (r0 * sin theta0);
          termo1 = f * u_t * u_t;
          termo2 = r0 * r0 * u_theta * u_theta;
          termo3 = r0 * r0 * sin theta0 * sin theta0 * u_phi * u_phi;
          u_r_sq = f * (termo1 - termo2 - termo3);
          u_r = - sqrt (max 0 u_r_sq)
      in \<lparr>est_t = t0, est_r = r0, est_theta = theta0, est_phi = phi0,
          est_u_t = u_t, est_u_r = u_r, est_u_theta = u_theta, est_u_phi = u_phi\<rparr>)"

definition corrige_theta :: "EstadoGeodesica \<Rightarrow> EstadoGeodesica" where
  "corrige_theta estado =
     (let e1 = (if est_theta estado < 0
                then estado\<lparr>est_theta := - est_theta estado,
                            est_u_theta := - est_u_theta estado\<rparr>
                else estado)
      in if est_theta e1 > pi
         then e1\<lparr>est_theta := 2 * pi - est_theta e1, est_u_theta := - est_u_theta e1\<rparr>
         else e1)"

function laco_raio ::
    "RayTracer \<Rightarrow> IntegradorGeodesico \<Rightarrow> int \<Rightarrow> EstadoGeodesica \<Rightarrow> ResultadoRaio
       \<Rightarrow> ResultadoRaio" where
  "laco_raio rt integrador i estado resultado =
     (if i < max_passos then
        (let resultado1 = resultado\<lparr>res_passos := i\<rparr> in
         if est_r estado < rt_rs rt * tolerancia_horizonte then
           resultado1\<lparr>res_destino := HORIZONTE,
                      res_r_impacto := Some (est_r estado),
                      res_cor := \<lparr>px_r = 0, px_g = 0, px_b = 0\<rparr>\<rparr>
         else
           (let theta_disco = pi / 2;
                delta_theta = \<bar>est_theta estado - theta_disco\<bar>
            in if delta_theta < 0.01 \<and> no_disco (rt_disco rt) (est_r estado) then
                 (let cor_disco =
                        intensidade_observada (rt_disco rt) (est_r estado) (est_phi estado)
                  in resultado1\<lparr>res_destino := DISCO,
                                res_r_impacto := Some (est_r estado),
                                res_phi_impacto := Some (est_phi estado),
                                res_theta_impacto := Some (est_theta estado),
                                res_cor := \<lparr>px_r = cor_r cor_disco, px_g = cor_g cor_disco,
                                            px_b = cor_b cor_disco\<rparr>\<rparr>)
               else if est_r estado > cam_r_observador (rt_camera rt) * 2 then
                 resultado1\<lparr>res_destino := INFINITO,
                            res_cor := (if usar_fundo
                                        then cor_fundo (est_theta estado) (est_phi estado)
                                        else \<lparr>px_r = 0.02, px_g = 0.02, px_b = 0.05\<rparr>)\<rparr>
               else
                 (let fator_passo = sqrt (est_r estado / rt_rs rt);
                      integrador1 = set_passo integrador (passo_inicial * fator_passo);
                      estado1 = passo_rk4 integrador1 estado
                  in laco_raio rt integrador1 (i + 1) (corrige_theta estado1) resultado1)))
      else resultado\<lparr>res_destino := ERRO, res_cor := \<lparr>px_r = 1, px_g = 0, px_b = 1\<rparr>\<rparr>)"
  by pat_completeness auto
termination
  by (relation "measure (\<lambda>(rt, integrador, i, estado, resultado). nat (max_passos - i))") auto

declare laco_raio.simps [simp del]

definition tracar_raio :: "RayTracer \<Rightarrow> real \<Rightarrow> real \<Rightarrow> ResultadoRaio" where
  "tracar_raio rt alfa beta =
     (let resultado = \<lparr>res_destino = INFINITO, res_r_impacto = None, res_phi_impacto = None,
                       res_theta_impacto = None, res_passos = 0,
                       res_cor = \<lparr>px_r = 0, px_g = 0, px_b = 0\<rparr>\<rparr>;
          estado = estado_inicial rt alfa beta;
          integrador = IntegradorGeodesico_novo (rt_metrica rt) passo_inicial
      in laco_raio rt integrador 0 estado resultado)"

section \<open>ray_tracer.hpp: rendering\<close>

datatype erro = TamanhoInvalido | DivisaoPorZero | ArquivoNaoAberto | ForaDosLimites

text \<open>
  The body of the inner loop of \<^verbatim>\<open>processar_bloco\<close> (lines 313 to 317): the colour that
  is stored at row \<open>j\<close>, column \<open>i\<close>.
\<close>

definition cor_do_pixel :: "RayTracer \<Rightarrow> nat \<Rightarrow> nat \<Rightarrow> Pixel" where
  "cor_do_pixel rt j i =
     (let largura = cam_largura (rt_camera rt);
          altura = cam_altura (rt_camera rt);
          alfa = (real i - real_of_int largura / 2) / real_of_int largura
                   * cam_fov_horizontal (rt_camera rt) * cam_r_observador (rt_camera rt);
          beta = (real j - real_of_int altura / 2) / real_of_int altura
                   * cam_fov_vertical (rt_camera rt) * cam_r_observador (rt_camera rt);
          resultado = tracar_raio rt alfa beta
      in res_cor resultado)"

text \<open>
  The two impact parameters that \<^verbatim>\<open>processar_bloco\<close> computes for column \<open>i\<close> and row \<open>j\<close>,
  on their own: the same two expressions as in \<open>cor_do_pixel\<close>.
\<close>

definition alfa_do_pixel :: "RayTracer \<Rightarrow> nat \<Rightarrow> real" where
  "alfa_do_pixel rt i =
     (let largura = cam_largura (rt_camera rt)
      in (real i - real_of_int largura / 2) / real_of_int largura
           * cam_fov_horizontal (rt_camera rt) * cam_r_observador (rt_camera rt))"

definition beta_do_pixel :: "RayTracer \<Rightarrow> nat \<Rightarrow> real" where
  "beta_do_pixel rt j =
     (let altura = cam_altura (rt_camera rt)
      in (real j - real_of_int altura / 2) / real_of_int altura
           * cam_fov_vertical (rt_camera rt) * cam_r_observador (rt_camera rt))"

text \<open>
  What a worker thread does to the shared state, as a list of events in program order:
  a store into \<^verbatim>\<open>imagem[j][i]\<close>, or an increment of the atomic row counter.
\<close>

datatype Evento = Escreve nat nat Pixel | LinhaProcessada

definition processar_bloco :: "RayTracer \<Rightarrow> nat \<Rightarrow> nat \<Rightarrow> Evento list" where
  "processar_bloco rt linha_inicio linha_fim =
     concat (map (\<lambda>j. map (\<lambda>i. Escreve j i (cor_do_pixel rt j i))
                         [0..<nat (cam_largura (rt_camera rt))]
                    @ [LinhaProcessada])
                 [linha_inicio..<linha_fim])"

text \<open>
  The bounds \<^verbatim>\<open>(inicio, fim)\<close> handed to the threads, for a height and a thread count that
  are not negative. Every product is at most the height, so no \<^verbatim>\<open>int\<close> overflows, and
  the quotient of non-negative operands is the same truncated or floored.
\<close>

definition blocos :: "nat \<Rightarrow> nat \<Rightarrow> (nat \<times> nat) list" where
  "blocos altura num_threads =
     (let linhas_por_thread = altura div num_threads in
      map (\<lambda>t. (t * linhas_por_thread,
                 if t = num_threads - 1 then altura else (t + 1) * linhas_por_thread))
          [0..<num_threads])"

definition eventos_render :: "RayTracer \<Rightarrow> Evento list" where
  "eventos_render rt =
     concat (map (\<lambda>(inicio, fim). processar_bloco rt inicio fim)
                 (blocos (nat (cam_altura (rt_camera rt))) (nat (rt_num_threads rt))))"

record EstadoRender =
  ren_imagem :: "Pixel list list"
  ren_linhas_processadas :: int

fun aplica_evento :: "Evento \<Rightarrow> EstadoRender \<Rightarrow> EstadoRender" where
  "aplica_evento (Escreve j i p) s =
     s\<lparr>ren_imagem := (ren_imagem s)[j := (ren_imagem s ! j)[i := p]]\<rparr>"
| "aplica_evento LinhaProcessada s =
     s\<lparr>ren_linhas_processadas := ren_linhas_processadas s + 1\<rparr>"

definition executa :: "Evento list \<Rightarrow> EstadoRender \<Rightarrow> EstadoRender" where
  "executa es s = fold aplica_evento es s"

definition estado_render_inicial :: "RayTracer \<Rightarrow> EstadoRender" where
  "estado_render_inicial rt =
     \<lparr>ren_imagem = replicate (nat (cam_altura (rt_camera rt)))
                      (replicate (nat (cam_largura (rt_camera rt)))
                         \<lparr>px_r = 0, px_g = 0, px_b = 0\<rparr>),
      ren_linhas_processadas = 0\<rparr>"

text \<open>
  \<^verbatim>\<open>renderizar\<close>, with the threads run one after the other in the order of their
  creation. A negative dimension makes the \<^verbatim>\<open>std::vector\<close> constructor throw, and a
  thread count of zero divides by zero; a negative thread count starts no thread.
\<close>

definition renderizar :: "RayTracer \<Rightarrow> erro + Pixel list list" where
  "renderizar rt =
     (if cam_largura (rt_camera rt) < 0 \<or> cam_altura (rt_camera rt) < 0
      then Inl TamanhoInvalido
      else if rt_num_threads rt = 0 then Inl DivisaoPorZero
      else Inr (ren_imagem (executa (eventos_render rt) (estado_render_inicial rt))))"

text \<open>
  Any other run of the threads performs the same events in some other order. A schedule
  is taken here to be any rearrangement of the events, which covers every interleaving
  that keeps each thread's own order.
\<close>

definition escalonamento :: "RayTracer \<Rightarrow> Evento list \<Rightarrow> bool" where
  "escalonamento rt es \<longleftrightarrow> mset es = mset (eventos_render rt)"

text \<open>The raster in which every pixel holds the colour of its own ray.\<close>

definition imagem_dos_raios :: "RayTracer \<Rightarrow> Pixel list list" where
  "imagem_dos_raios rt =
     map (\<lambda>j. map (\<lambda>i. cor_do_pixel rt j i) [0..<nat (cam_largura (rt_camera rt))])
         [0..<nat (cam_altura (rt_camera rt))]"

text \<open>The rows the threads visit, block after block, and the positions they store to.\<close>

definition linhas_visitadas :: "nat \<Rightarrow> nat \<Rightarrow> nat list" where
  "linhas_visitadas altura num_threads =
     concat (map (\<lambda>(inicio, fim). [inicio..<fim]) (blocos altura num_threads))"

fun posicoes :: "Evento list \<Rightarrow> (nat \<times> nat) list" where
  "posicoes [] = []"
| "posicoes (Escreve j i p # es) = (j, i) # posicoes es"
| "posicoes (LinhaProcessada # es) = posicoes es"

section \<open>ray_tracer.hpp: the PPM writer\<close>

text \<open>\<^verbatim>\<open>operator<<\<close> on a non-negative \<^verbatim>\<open>int\<close>: its decimal digits.\<close>

definition digito :: "nat \<Rightarrow> char" where
  "digito d = char_of (48 + d)"

function decimal :: "nat \<Rightarrow> string" where
  "decimal n = (if n < 10 then [digito n] else decimal (n div 10) @ [digito (n mod 10)])"
  by pat_completeness auto
termination
  by (relation "measure id") auto

text \<open>\<^verbatim>\<open>operator<<\<close> on a \<^verbatim>\<open>uint8_t\<close> writes the one character with that code.\<close>

definition escreve_byte :: "8 word \<Rightarrow> char" where
  "escreve_byte w = char_of (unat w)"

definition cabecalho_ppm :: "nat \<Rightarrow> nat \<Rightarrow> string" where
  "cabecalho_ppm largura altura =
     ''P6'' @ [CHR 0x0A] @ decimal largura @ '' '' @ decimal altura @ [CHR 0x0A]
       @ ''255'' @ [CHR 0x0A]"

definition corpo_ppm :: "Pixel list list \<Rightarrow> nat \<Rightarrow> nat \<Rightarrow> string" where
  "corpo_ppm imagem largura altura =
     concat (map (\<lambda>j. concat (map (\<lambda>i. (let p = pixel_clamp (imagem ! j ! i) in
                                          [escreve_byte (r_byte p), escreve_byte (g_byte p),
                                           escreve_byte (b_byte p)]))
                                   [0..<largura]))
                 [0..<altura])"

text \<open>
  \<^verbatim>\<open>salvar_ppm\<close> returns the contents of the file it wrote. The flag \<open>aberto\<close> is the
  answer of \<^verbatim>\<open>is_open\<close>. Reading \<^verbatim>\<open>imagem[0]\<close> of an empty raster, or a pixel beyond the
  end of a short row, is outside the vector and counted as an error.
\<close>

definition salvar_ppm :: "Pixel list list \<Rightarrow> bool \<Rightarrow> erro + string" where
  "salvar_ppm imagem aberto =
     (if \<not> aberto then Inl ArquivoNaoAberto
      else if imagem = [] then Inl ForaDosLimites
      else
        (let altura = length imagem;
             largura = length (imagem ! 0)
         in if (\<exists>linha \<in> set imagem. length linha < largura) then Inl ForaDosLimites
            else Inr (cabecalho_ppm largura altura @ corpo_ppm imagem largura altura)))"

section \<open>Notions of the specification\<close>

text \<open>
  The line element applied to the four-velocity of a state, with the metric components
  of the metric class: \<open>g\<^sub>\<mu>\<^sub>\<nu> u\<^sup>\<mu> u\<^sup>\<nu>\<close>. The scale is the sum of the magnitudes of its four
  terms, against which a relative error is measured.
\<close>

definition norma_quadrivelocidade :: "MetricaSchwarzschild \<Rightarrow> EstadoGeodesica \<Rightarrow> real" where
  "norma_quadrivelocidade m e =
     g_tt m (est_r e) * est_u_t e * est_u_t e
     + g_rr m (est_r e) * est_u_r e * est_u_r e
     + g_theta_theta m (est_r e) * est_u_theta e * est_u_theta e
     + g_phi_phi m (est_r e) (est_theta e) * est_u_phi e * est_u_phi e"

definition escala_quadrivelocidade :: "MetricaSchwarzschild \<Rightarrow> EstadoGeodesica \<Rightarrow> real" where
  "escala_quadrivelocidade m e =
     \<bar>g_tt m (est_r e) * est_u_t e * est_u_t e\<bar>
     + \<bar>g_rr m (est_r e) * est_u_r e * est_u_r e\<bar>
     + \<bar>g_theta_theta m (est_r e) * est_u_theta e * est_u_theta e\<bar>
     + \<bar>g_phi_phi m (est_r e) (est_theta e) * est_u_phi e * est_u_phi e\<bar>"

text \<open>
  The argument of the square root in \<^verbatim>\<open>tracar_raio\<close> before \<^verbatim>\<open>std::max\<close> clamps it:
  the clamp fires exactly when this is negative.
\<close>

definition u_r_sq :: "RayTracer \<Rightarrow> real \<Rightarrow> real \<Rightarrow> real" where
  "u_r_sq rt alfa beta =
     (let r0 = cam_r_observador (rt_camera rt);
          theta0 = cam_theta_observador (rt_camera rt);
          f = 1 - rt_rs rt / r0;
          u_t = 1 / f;
          u_theta = beta / r0;
          u_phi = alfa / (r0 * sin theta0);
          termo1 = f * u_t * u_t;
          termo2 = r0 * r0 * u_theta * u_theta;
          termo3 = r0 * r0 * sin theta0 * sin theta0 * u_phi * u_phi
      in f * (termo1 - termo2 - termo3))"

text \<open>How many of the two reflections of \<open>corrige_theta\<close> fire on a polar angle.\<close>

definition reflexoes :: "real \<Rightarrow> nat" where
  "reflexoes theta =
     (if theta < 0 then 1 else 0)
     + (if (if theta < 0 then - theta else theta) > pi then 1 else 0)"

text \<open>The termination tests of the loop, in the order the loop makes them.\<close>

definition no_horizonte :: "RayTracer \<Rightarrow> EstadoGeodesica \<Rightarrow> bool" where
  "no_horizonte rt e \<longleftrightarrow> est_r e < 1.001 * rt_rs rt"

definition atinge_disco :: "RayTracer \<Rightarrow> EstadoGeodesica \<Rightarrow> bool" where
  "atinge_disco rt e \<longleftrightarrow>
     \<bar>est_theta e - pi / 2\<bar> < 0.01
     \<and> dis_raio_interno (rt_disco rt) \<le> est_r e \<and> est_r e \<le> dis_raio_externo (rt_disco rt)"

definition escapou :: "RayTracer \<Rightarrow> EstadoGeodesica \<Rightarrow> bool" where
  "escapou rt e \<longleftrightarrow> est_r e > 2 * cam_r_observador (rt_camera rt)"

definition evento :: "RayTracer \<Rightarrow> EstadoGeodesica \<Rightarrow> bool" where
  "evento rt e \<longleftrightarrow> no_horizonte rt e \<or> atinge_disco rt e \<or> escapou rt e"

text \<open>
  The state an iteration hands to the next one when no test fires: one Runge-Kutta step
  of size \<open>h\<^sub>0 \<surd>(r / r\<^sub>s)\<close> followed by the correction of the polar angle.
\<close>

definition avanca :: "RayTracer \<Rightarrow> EstadoGeodesica \<Rightarrow> EstadoGeodesica" where
  "avanca rt e =
     corrige_theta
       (passo_rk4 (IntegradorGeodesico_novo (rt_metrica rt)
                     (passo_inicial * sqrt (est_r e / rt_rs rt))) e)"

definition estado_no_passo :: "RayTracer \<Rightarrow> real \<Rightarrow> real \<Rightarrow> nat \<Rightarrow> EstadoGeodesica" where
  "estado_no_passo rt alfa beta k = (avanca rt ^^ k) (estado_inicial rt alfa beta)"

text \<open>The colour the specification gives to a ray whose first event is in state \<open>e\<close>.\<close>

definition cor_do_evento :: "RayTracer \<Rightarrow> EstadoGeodesica \<Rightarrow> Pixel" where
  "cor_do_evento rt e =
     (if no_horizonte rt e then \<lparr>px_r = 0, px_g = 0, px_b = 0\<rparr>
      else if atinge_disco rt e then
        (let c = intensidade_observada (rt_disco rt) (est_r e) (est_phi e)
         in \<lparr>px_r = cor_r c, px_g = cor_g c, px_b = cor_b c\<rparr>)
      else cor_fundo (est_theta e) (est_phi e))"

text \<open>The byte the specification asks for: the clamped channel scaled and rounded.\<close>

definition byte_arredondado :: "real \<Rightarrow> int" where
  "byte_arredondado c = round (max 0 (min 1 c) * 255)"

text \<open>
  The byte as the amended claim words it: the clamped channel scaled, the product rounded
  to double precision, and the fractional part dropped.
\<close>

definition byte_truncado :: "real \<Rightarrow> int" where
  "byte_truncado c = \<lfloor>fl64 (max 0 (min 1 c) * 255)\<rfloor>"

section \<open>A concrete configuration\<close>

text \<open>
  A tracer whose mass makes the Schwarzschild radius one metre, observed from
  \<open>1.0201 r\<^sub>s\<close> with the default camera otherwise. A ray aimed straight at the hole
  crosses the horizon tolerance after one integration step.
\<close>

definition rt_unitario :: RayTracer where
  "rt_unitario = set_camera (RayTracer_novo (C2 / (2 * G * MASSA_SOL)) 0.1)
                   (Camera_padrao\<lparr>cam_r_observador := 1.0201\<rparr>)"

section \<open>The Runge-Kutta step\<close>

text \<open>
  The right-hand side the integrator evaluates is \<open>f_geodesica\<close> for the guarded table:
  each of the nine functions of the metric class agrees with its entry, three of them
  with the guard.
\<close>

lemma derivs_eq_f_geodesica:
  "derivs I y = f_geodesica (Gamma_guardada (met_rs (int_metrica I))) y"
  by (simp add: derivs_def f_geodesica_def derivadas_geodesica_def aceleracao_def
      Gamma_guardada_def Gamma_tabela_def
      christoffel_t_tr_def christoffel_r_tt_def christoffel_r_rr_def
      christoffel_r_theta_theta_def christoffel_r_phi_phi_def christoffel_theta_r_theta_def
      christoffel_theta_phi_phi_def christoffel_phi_r_phi_def christoffel_phi_theta_phi_def
      eval_nat_numeral lessThan_Suc Let_def cot_def tan_def power2_eq_square)

lemma length_f_geodesica: "length (f_geodesica Gam y) = 8"
  by (simp add: f_geodesica_def)

lemma length_como_array: "length (como_array e) = 8"
  by (simp add: como_array_def)

lemma vadd_vscale_8:
  "length xs = 8 \<Longrightarrow> length ks = 8 \<Longrightarrow>
   vadd xs (vscale c ks) = map (\<lambda>i. xs ! i + c * ks ! i) [0..<8]"
  by (auto simp: vadd_def vscale_def list_eq_iff_nth_eq)

lemma rk4_comb_8:
  assumes "length xs = 8" "length k1 = 8" "length k2 = 8" "length k3 = 8" "length k4 = 8"
  shows "vadd xs (vscale (h / 6) (vadd k1 (vadd (vscale 2 k2) (vadd (vscale 2 k3) k4))))
       = map (\<lambda>i. xs ! i + h * (k1 ! i + 2 * k2 ! i + 2 * k3 ! i + k4 ! i) / 6) [0..<8]"
  using assms by (auto simp: vadd_def vscale_def list_eq_iff_nth_eq)

lemma length_rk4_spec:
  assumes "length s = 8" and "\<And>y. length (f y) = 8"
  shows "length (rk4_spec h f s) = 8"
  using assms by (simp add: rk4_spec_def Let_def vadd_def vscale_def)

lemma passo_rk4_lista:
  "passo_rk4 (set_passo I h) s
     = de_array (rk4_spec h (f_geodesica (Gamma_guardada (met_rs (int_metrica I))))
                   (como_array s))"
proof -
  let ?f = "f_geodesica (Gamma_guardada (met_rs (int_metrica I)))"
  let ?J = "set_passo I h"
  have d: "derivs ?J y = ?f y" for y
    by (simp add: derivs_eq_f_geodesica set_passo_def)
  have p: "int_passo ?J = h"
    by (simp add: set_passo_def)
  show ?thesis
    unfolding passo_rk4_def rk4_spec_def Let_def d p
    by (simp only: vadd_vscale_8 rk4_comb_8 length_f_geodesica length_como_array mult.assoc)
qed

lemma Gamma_guardada_fora:
  "rs < r \<Longrightarrow> Gamma_guardada rs r theta mu al be = Gamma_tabela rs r theta mu al be"
  by (simp add: Gamma_guardada_def)

lemma f_geodesica_fora:
  "rs < y ! 1 \<Longrightarrow> f_geodesica (Gamma_guardada rs) y = f_geodesica (Gamma_tabela rs) y"
  by (simp add: f_geodesica_def aceleracao_def Gamma_guardada_fora)

lemma rk4_spec_fora:
  assumes "\<forall>y \<in> set (estagios h (f_geodesica (Gamma_tabela rs)) s). rs < y ! 1"
  shows "rk4_spec h (f_geodesica (Gamma_guardada rs)) s
       = rk4_spec h (f_geodesica (Gamma_tabela rs)) s"
proof -
  let ?g = "f_geodesica (Gamma_guardada rs)"
  let ?t = "f_geodesica (Gamma_tabela rs)"
  have 1: "?g s = ?t s"
    using assms by (intro f_geodesica_fora) (simp add: estagios_def Let_def)
  have 2: "?g (vadd s (vscale (0.5 * h) (?t s))) = ?t (vadd s (vscale (0.5 * h) (?t s)))"
    using assms by (intro f_geodesica_fora) (simp add: estagios_def Let_def)
  have 3: "?g (vadd s (vscale (0.5 * h) (?t (vadd s (vscale (0.5 * h) (?t s))))))
      = ?t (vadd s (vscale (0.5 * h) (?t (vadd s (vscale (0.5 * h) (?t s))))))"
    using assms by (intro f_geodesica_fora) (simp add: estagios_def Let_def)
  have 4: "?g (vadd s (vscale h (?t (vadd s (vscale (0.5 * h) (?t (vadd s (vscale (0.5 * h) (?t s)))))))))
      = ?t (vadd s (vscale h (?t (vadd s (vscale (0.5 * h) (?t (vadd s (vscale (0.5 * h) (?t s)))))))))"
    using assms by (intro f_geodesica_fora) (simp add: estagios_def Let_def)
  show ?thesis
    unfolding rk4_spec_def Let_def 1 2 3 4 ..
qed

lemma f_tabela_radial:
  "f_geodesica (Gamma_tabela rs) [t, r, th, ph, ut, ur, 0, 0]
     = [ut, ur, 0, 0,
        - 2 * (rs / (2 * r * (r - rs))) * ut * ur,
        - (rs * (r - rs) / (2 * r ^ 3)) * ut * ut - (- rs / (2 * r * (r - rs))) * ur * ur,
        0, 0]"
  by (simp add: f_geodesica_def aceleracao_def Gamma_tabela_def eval_nat_numeral lessThan_Suc)

lemma f_guardada_radial_dentro:
  "r \<le> rs \<Longrightarrow>
   f_geodesica (Gamma_guardada rs) [t, r, th, ph, ut, ur, 0, 0] = [ut, ur, 0, 0, 0, 0, 0, 0]"
  by (simp add: f_geodesica_def aceleracao_def Gamma_guardada_def Gamma_tabela_def
      eval_nat_numeral lessThan_Suc)

lemma soma_listas:
  "vadd [a0, a1, a2, a3, a4, a5, a6, a7] (vscale c [b0, b1, b2, b3, b4, b5, b6, b7])
     = [a0 + c * b0, a1 + c * b1, a2 + c * b2, a3 + c * b3,
        a4 + c * b4, a5 + c * b5, a6 + c * b6, a7 + c * b7]"
  by (simp add: vadd_def vscale_def)

lemma met_rs_unitaria: "met_rs (MetricaSchwarzschild_novo (C2 / (2 * G * MASSA_SOL))) = 1"
  by (simp add: MetricaSchwarzschild_novo_def Let_def G_def C2_def C_def MASSA_SOL_def)

lemma tabela_dentro:
  "rk4_spec (1 / 2) (f_geodesica (Gamma_tabela 1)) [0, 1 / 2, pi / 2, 0, 1, 0, 0, 0] ! 1
     = 529 / 750"
proof -
  have k1: "f_geodesica (Gamma_tabela 1) [0, 1 / 2, pi / 2, 0, 1, 0, 0, 0]
      = [1, 0, 0, 0, 0, 2, 0, 0]"
    unfolding f_tabela_radial by (simp add: power3_eq_cube)
  have y2: "vadd [0, 1 / 2, pi / 2, 0, 1, 0, 0, 0] (vscale (0.5 * (1 / 2)) [1, 0, 0, 0, 0, 2, 0, 0])
      = [1 / 4, 1 / 2, pi / 2, 0, 1, 1 / 2, 0, 0]"
    unfolding soma_listas by simp
  have k2: "f_geodesica (Gamma_tabela 1) [1 / 4, 1 / 2, pi / 2, 0, 1, 1 / 2, 0, 0]
      = [1, 1 / 2, 0, 0, 2, 3 / 2, 0, 0]"
    unfolding f_tabela_radial by (simp add: power3_eq_cube)
  have y3: "vadd [0, 1 / 2, pi / 2, 0, 1, 0, 0, 0]
        (vscale (0.5 * (1 / 2)) [1, 1 / 2, 0, 0, 2, 3 / 2, 0, 0])
      = [1 / 4, 5 / 8, pi / 2, 0, 3 / 2, 3 / 8, 0, 0]"
    unfolding soma_listas by simp
  have k3: "f_geodesica (Gamma_tabela 1) [1 / 4, 5 / 8, pi / 2, 0, 3 / 2, 3 / 8, 0, 0]
      = [3 / 2, 3 / 8, 0, 0, 12 / 5, 357 / 250, 0, 0]"
    unfolding f_tabela_radial by (simp add: power3_eq_cube)
  have y4: "vadd [0, 1 / 2, pi / 2, 0, 1, 0, 0, 0]
        (vscale (1 / 2) [3 / 2, 3 / 8, 0, 0, 12 / 5, 357 / 250, 0, 0])
      = [3 / 4, 11 / 16, pi / 2, 0, 11 / 5, 357 / 500, 0, 0]"
    unfolding soma_listas by simp
  show ?thesis
    unfolding rk4_spec_def Let_def
    unfolding k1 unfolding y2 unfolding k2 unfolding y3 unfolding k3 unfolding y4
    unfolding f_tabela_radial
    by (simp add: vadd_def vscale_def)
qed

lemma integrador_unitario:
  "met_rs (int_metrica (IntegradorGeodesico_novo
      (MetricaSchwarzschild_novo (C2 / (2 * G * MASSA_SOL))) 0.1)) = 1"
  by (simp add: IntegradorGeodesico_novo_def met_rs_unitaria)

lemma estagios_fora:
  "list_all (\<lambda>z. 1 < z ! 1)
     (estagios (1 / 2) (f_geodesica (Gamma_tabela 1)) [0, 2, pi / 2, 0, 1, 0, 0, 0])"
proof -
  have k1: "f_geodesica (Gamma_tabela 1) [0, 2, pi / 2, 0, 1, 0, 0, 0]
      = [1, 0, 0, 0, 0, - 1 / 16, 0, 0]"
    unfolding f_tabela_radial by (simp add: power3_eq_cube)
  have y2: "vadd [0, 2, pi / 2, 0, 1, 0, 0, 0] (vscale (0.5 * (1 / 2)) [1, 0, 0, 0, 0, - 1 / 16, 0, 0])
      = [1 / 4, 2, pi / 2, 0, 1, - 1 / 64, 0, 0]"
    unfolding soma_listas by simp
  have k2: "f_geodesica (Gamma_tabela 1) [1 / 4, 2, pi / 2, 0, 1, - 1 / 64, 0, 0]
      = [1, - 1 / 64, 0, 0, 1 / 128, - 1023 / 16384, 0, 0]"
    unfolding f_tabela_radial by (simp add: power3_eq_cube)
  have y3: "vadd [0, 2, pi / 2, 0, 1, 0, 0, 0]
        (vscale (0.5 * (1 / 2)) [1, - 1 / 64, 0, 0, 1 / 128, - 1023 / 16384, 0, 0])
      = [1 / 4, 511 / 256, pi / 2, 0, 513 / 512, - 1023 / 65536, 0, 0]"
    unfolding soma_listas by simp
  show ?thesis
    unfolding estagios_def Let_def
    unfolding k1 unfolding y2 unfolding k2 unfolding y3
    unfolding f_tabela_radial soma_listas
    by simp
qed

lemma guardada_dentro:
  "rk4_spec (1 / 2) (f_geodesica (Gamma_guardada 1)) [0, 1 / 2, pi / 2, 0, 1, 0, 0, 0]
     = [1 / 2, 1 / 2, pi / 2, 0, 1, 0, 0, 0]"
proof -
  have k: "f_geodesica (Gamma_guardada 1) [t, 1 / 2, pi / 2, 0, 1, 0, 0, 0]
      = [1, 0, 0, 0, 0, 0, 0, 0]" for t :: real
    by (simp add: f_guardada_radial_dentro)
  have y2: "vadd [0, 1 / 2, pi / 2, 0, 1, 0, 0, 0] (vscale (0.5 * (1 / 2)) [1, 0, 0, 0, 0, 0, 0, 0])
      = [1 / 4, 1 / 2, pi / 2, 0, 1, 0, 0, 0]"
    unfolding soma_listas by simp
  have y4: "vadd [0, 1 / 2, pi / 2, 0, 1, 0, 0, 0] (vscale (1 / 2) [1, 0, 0, 0, 0, 0, 0, 0])
      = [1 / 2, 1 / 2, pi / 2, 0, 1, 0, 0, 0]"
    unfolding soma_listas by simp
  show ?thesis
    unfolding rk4_spec_def Let_def
    unfolding k unfolding y2 unfolding k unfolding y2 unfolding k unfolding y4 unfolding k
    by (simp add: vadd_def vscale_def)
qed

text \<open>
  C1, as amended. For every integrator, state \<open>s\<close> and step \<open>h\<close>, one call of
  \<^verbatim>\<open>passo_rk4\<close> with the step set to \<open>h\<close> returns, field by field, the eight components of
  \<open>s + (h/6)(k1 + 2 k2 + 2 k3 + k4)\<close> with \<open>k1 = f(s)\<close>, \<open>k2 = f(s + 0.5 h k1)\<close>,
  \<open>k3 = f(s + 0.5 h k2)\<close>, \<open>k4 = f(s + h k3)\<close>, where \<open>f\<close> maps a state to
  \<open>(u\<^sup>t, u\<^sup>r, u\<^sup>\<theta>, u\<^sup>\<phi>, a\<^sup>t, a\<^sup>r, a\<^sup>\<theta>, a\<^sup>\<phi>)\<close> with \<open>a\<^sup>\<mu> = - \<Gamma>\<^sup>\<mu>\<^sub>\<alpha>\<^sub>\<beta> u\<^sup>\<alpha> u\<^sup>\<beta>\<close> summed over all index
  pairs, and \<open>\<Gamma>\<close> is the table of the specification except that \<open>\<Gamma>\<^sup>t\<^sub>t\<^sub>r\<close>, \<open>\<Gamma>\<^sup>r\<^sub>t\<^sub>t\<close> and \<open>\<Gamma>\<^sup>r\<^sub>r\<^sub>r\<close>
  are zero where \<open>r \<le> r\<^sub>s\<close>. Outside the horizon this \<open>\<Gamma>\<close> is the table itself, and when
  the state and the three intermediate states of the step with the table all have
  \<open>r > r\<^sub>s\<close>, the result is the Runge-Kutta step of the table's geodesic derivative.
\<close>

theorem passo_rk4_campos:
  "(let rs = met_rs (int_metrica I);
        y = [est_t s, est_r s, est_theta s, est_phi s,
             est_u_t s, est_u_r s, est_u_theta s, est_u_phi s];
        v = rk4_spec h (f_geodesica (Gamma_guardada rs)) y
    in passo_rk4 (set_passo I h) s
         = \<lparr>est_t = v ! 0, est_r = v ! 1, est_theta = v ! 2, est_phi = v ! 3,
            est_u_t = v ! 4, est_u_r = v ! 5, est_u_theta = v ! 6, est_u_phi = v ! 7\<rparr>
       \<and> (\<forall>r theta mu al be. rs < r \<longrightarrow>
             Gamma_guardada rs r theta mu al be = Gamma_tabela rs r theta mu al be)
       \<and> (list_all (\<lambda>z. rs < z ! 1) (estagios h (f_geodesica (Gamma_tabela rs)) y) \<longrightarrow>
             v = rk4_spec h (f_geodesica (Gamma_tabela rs)) y))"
  unfolding Let_def
  using passo_rk4_lista [of I h s] Gamma_guardada_fora rk4_spec_fora
  by (simp add: de_array_def como_array_def list_all_iff)

text \<open>
  An instance outside the horizon: \<open>r\<^sub>s = 1\<close>, a photon at rest in space at \<open>r = 2\<close> on the
  equator, \<open>h = 1/2\<close>. The four stage radii are \<open>2\<close>, \<open>2\<close>, \<open>511/256\<close> and \<open>261121/131072\<close>.
\<close>

theorem passo_rk4_campos_witness:
  "list_all (\<lambda>z. 1 < z ! 1)
     (estagios (1 / 2) (f_geodesica (Gamma_tabela 1)) [0, 2, pi / 2, 0, 1, 0, 0, 0])
   \<and> (let v = rk4_spec (1 / 2) (f_geodesica (Gamma_tabela 1)) [0, 2, pi / 2, 0, 1, 0, 0, 0]
      in passo_rk4
           (set_passo (IntegradorGeodesico_novo
              (MetricaSchwarzschild_novo (C2 / (2 * G * MASSA_SOL))) 0.1) (1 / 2))
           \<lparr>est_t = 0, est_r = 2, est_theta = pi / 2, est_phi = 0,
            est_u_t = 1, est_u_r = 0, est_u_theta = 0, est_u_phi = 0\<rparr>
         = \<lparr>est_t = v ! 0, est_r = v ! 1, est_theta = v ! 2, est_phi = v ! 3,
            est_u_t = v ! 4, est_u_r = v ! 5, est_u_theta = v ! 6, est_u_phi = v ! 7\<rparr>)
   \<and> Gamma_guardada 1 2 (pi / 2) 1 0 0 = 1 / 16
   \<and> Gamma_tabela 1 2 (pi / 2) 1 0 0 = 1 / 16"
proof -
  let ?I = "IntegradorGeodesico_novo (MetricaSchwarzschild_novo (C2 / (2 * G * MASSA_SOL))) 0.1"
  let ?s = "\<lparr>est_t = 0, est_r = 2, est_theta = pi / 2, est_phi = 0,
            est_u_t = 1, est_u_r = 0, est_u_theta = 0, est_u_phi = 0\<rparr> :: EstadoGeodesica"
  have g: "Gamma_tabela 1 2 (pi / 2) 1 0 0 = 1 / 16"
    by (simp add: Gamma_tabela_def power3_eq_cube)
  note t = passo_rk4_campos [of ?I ?s "1 / 2", unfolded Let_def integrador_unitario
      EstadoGeodesica.simps]
  from t have a: "Gamma_guardada 1 2 (pi / 2) 1 0 0 = Gamma_tabela 1 2 (pi / 2) 1 0 0"
    by simp
  from t estagios_fora
  have b: "rk4_spec (1 / 2) (f_geodesica (Gamma_guardada 1)) [0, 2, pi / 2, 0, 1, 0, 0, 0]
      = rk4_spec (1 / 2) (f_geodesica (Gamma_tabela 1)) [0, 2, pi / 2, 0, 1, 0, 0, 0]"
    by blast
  from t have c: "passo_rk4 (set_passo ?I (1 / 2)) ?s
      = (let v = rk4_spec (1 / 2) (f_geodesica (Gamma_guardada 1)) [0, 2, pi / 2, 0, 1, 0, 0, 0]
         in \<lparr>est_t = v ! 0, est_r = v ! 1, est_theta = v ! 2, est_phi = v ! 3,
            est_u_t = v ! 4, est_u_r = v ! 5, est_u_theta = v ! 6, est_u_phi = v ! 7\<rparr>)"
    unfolding Let_def by blast
  show ?thesis
    using estagios_fora a g c unfolding b Let_def by simp
qed

text \<open>
  Inside the horizon the guard decides. With \<open>r\<^sub>s = 1\<close>, the state at \<open>r = 1/2\<close> with
  \<open>u\<^sup>t = 1\<close> and no other velocity, and \<open>h = 1/2\<close>, the code finds no acceleration at any
  stage and leaves \<open>r\<close> at \<open>1/2\<close>; the table gives \<open>\<Gamma>\<^sup>r\<^sub>t\<^sub>t = -2\<close> there, an outward
  acceleration \<open>a\<^sup>r = 2\<close> at the first stage, and the step ends at \<open>r = 529/750\<close>.
\<close>

theorem passo_rk4_counterexample:
  "est_r (passo_rk4
      (set_passo (IntegradorGeodesico_novo
         (MetricaSchwarzschild_novo (C2 / (2 * G * MASSA_SOL))) 0.1) (1 / 2))
      \<lparr>est_t = 0, est_r = 1 / 2, est_theta = pi / 2, est_phi = 0,
       est_u_t = 1, est_u_r = 0, est_u_theta = 0, est_u_phi = 0\<rparr>) = 1 / 2
   \<and> met_rs (int_metrica (IntegradorGeodesico_novo
         (MetricaSchwarzschild_novo (C2 / (2 * G * MASSA_SOL))) 0.1)) = 1
   \<and> rk4_spec (1 / 2) (f_geodesica (Gamma_tabela 1)) [0, 1 / 2, pi / 2, 0, 1, 0, 0, 0] ! 1
       = 529 / 750"
  using tabela_dentro integrador_unitario guardada_dentro
  by (simp add: passo_rk4_lista integrador_unitario de_array_def como_array_def)

section \<open>The correction of the polar angle\<close>

text \<open>
  C5, as amended. For every polar angle \<open>\<theta>\<close> in \<open>[-2\<pi>, 2\<pi>]\<close> and every \<open>u\<^sup>\<theta>\<close>, the
  correction yields an angle in \<open>[0, \<pi>]\<close>. Each reflection that fires negates \<open>u\<^sup>\<theta>\<close>
  once: the output is \<open>- u\<^sup>\<theta>\<close> when exactly one reflection fired, which is the case for
  \<open>\<theta>\<close> in \<open>[-\<pi>, 0)\<close> and in \<open>(\<pi>, 2\<pi>]\<close>, and \<open>u\<^sup>\<theta>\<close> itself when none fired or when both did,
  which is the case for \<open>\<theta> < -\<pi>\<close>.
\<close>

theorem corrige_theta_reflexoes:
  assumes "- (2 * pi) \<le> est_theta e" and "est_theta e \<le> 2 * pi"
  shows "0 \<le> est_theta (corrige_theta e) \<and> est_theta (corrige_theta e) \<le> pi
       \<and> est_u_theta (corrige_theta e)
           = (if reflexoes (est_theta e) = 1 then - est_u_theta e else est_u_theta e)
       \<and> (reflexoes (est_theta e) = 1 \<longleftrightarrow>
            (- pi \<le> est_theta e \<and> est_theta e < 0) \<or> pi < est_theta e)
       \<and> (reflexoes (est_theta e) = 2 \<longleftrightarrow> est_theta e < - pi)"
  using assms pi_gt_zero
  by (auto simp: corrige_theta_def reflexoes_def Let_def)

theorem corrige_theta_reflexoes_witness:
  "- (2 * pi) \<le> (- pi / 2 :: real) \<and> (- pi / 2 :: real) \<le> 2 * pi
   \<and> est_theta (corrige_theta
        \<lparr>est_t = 0, est_r = 10, est_theta = - pi / 2, est_phi = 0,
         est_u_t = 1, est_u_r = 0, est_u_theta = 1, est_u_phi = 0\<rparr>) = pi / 2
   \<and> est_u_theta (corrige_theta
        \<lparr>est_t = 0, est_r = 10, est_theta = - pi / 2, est_phi = 0,
         est_u_t = 1, est_u_r = 0, est_u_theta = 1, est_u_phi = 0\<rparr>) = - 1"
proof -
  have lo: "- (2 * pi) \<le> (- pi / 2 :: real)" and hi: "(- pi / 2 :: real) \<le> 2 * pi"
    and neg: "(- pi / 2 :: real) < 0" and ge: "- pi \<le> (- pi / 2 :: real)"
    using pi_gt_zero by linarith+
  let ?e = "\<lparr>est_t = 0, est_r = 10, est_theta = - pi / 2, est_phi = 0,
         est_u_t = 1, est_u_r = 0, est_u_theta = 1, est_u_phi = 0\<rparr>"
  have one: "reflexoes (est_theta ?e) = 1"
    using corrige_theta_reflexoes [of ?e] lo hi neg ge by simp
  have u: "est_u_theta (corrige_theta ?e) = - 1"
    using corrige_theta_reflexoes [of ?e] lo hi one by simp
  have th: "est_theta (corrige_theta ?e) = pi / 2"
    using neg pi_gt_zero by (simp add: corrige_theta_def)
  show ?thesis
    using lo hi u th by simp
qed

text \<open>
  The property as the specification states it fails twice. An angle of \<open>3\<pi>\<close> leaves the
  correction as \<open>-\<pi>\<close>, outside \<open>[0, \<pi>]\<close>. An angle of \<open>-3\<pi>/2\<close> is reflected (twice), yet
  \<open>u\<^sup>\<theta> = 1\<close> comes out with its sign unchanged.
\<close>

theorem corrige_theta_counterexample:
  "est_theta (corrige_theta
      \<lparr>est_t = 0, est_r = 10, est_theta = 3 * pi, est_phi = 0,
       est_u_t = 1, est_u_r = 0, est_u_theta = 1, est_u_phi = 0\<rparr>) < 0
   \<and> 0 < reflexoes (- 3 * pi / 2)
   \<and> est_u_theta (corrige_theta
      \<lparr>est_t = 0, est_r = 10, est_theta = - 3 * pi / 2, est_phi = 0,
       est_u_t = 1, est_u_r = 0, est_u_theta = 1, est_u_phi = 0\<rparr>) = 1"
  using pi_gt_zero by (simp add: corrige_theta_def reflexoes_def)

section \<open>The camera setter\<close>

text \<open>
  C8, as amended. Each call of \<open>set_camera\<close> overwrites the stored camera with its
  argument and multiplies that argument's observer radius by \<open>r\<^sub>s\<close> once: after the call
  the stored radius is \<open>cam.r_observador \<cdot> r\<^sub>s\<close>, whatever was stored before, so a second call
  with the same camera value changes nothing. The radius is scaled twice only when the
  stored camera itself is handed back to the setter.
\<close>

theorem set_camera_escala:
  "cam_r_observador (camera (set_camera rt cam)) = cam_r_observador cam * rt_rs rt
   \<and> set_camera (set_camera rt cam) cam = set_camera rt cam
   \<and> cam_r_observador (camera (set_camera (set_camera rt cam) cam))
       = cam_r_observador cam * rt_rs rt
   \<and> cam_r_observador (camera (set_camera rt (camera (set_camera rt cam))))
       = cam_r_observador cam * rt_rs rt * rt_rs rt"
  by (simp add: set_camera_def camera_def)

text \<open>
  On the tracer of ten solar masses, two calls with the default camera leave the radius
  \<open>100 r\<^sub>s\<close>, not \<open>100 r\<^sub>s\<^sup>2\<close>.
\<close>

theorem set_camera_counterexample:
  "cam_r_observador (camera (set_camera (set_camera (RayTracer_novo 10 0.1) Camera_padrao)
                                         Camera_padrao))
     \<noteq> cam_r_observador Camera_padrao * rt_rs (RayTracer_novo 10 0.1) ^ 2"
  by (simp add: set_camera_def camera_def RayTracer_novo_def Camera_padrao_def
      MetricaSchwarzschild_novo_def raio_schwarzschild_def G_def C2_def C_def MASSA_SOL_def
      Let_def power2_eq_square)

section \<open>The accretion disk\<close>

lemma G_pos: "0 < G"
  by (simp add: G_def)

lemma C_pos: "0 < C"
  by (simp add: C_def)

lemma C2_pos: "0 < C2"
  by (simp add: C2_def C_pos)

lemma MASSA_SOL_pos: "0 < MASSA_SOL"
  by (simp add: MASSA_SOL_def)

lemma SIGMA_SB_pos: "0 < SIGMA_SB"
  by (simp add: SIGMA_SB_def)

lemma disco_massa_bh: "dis_massa_bh (DiscoAcrecao_novo m t s) = m * MASSA_SOL"
  by (simp add: DiscoAcrecao_novo_def Let_def)

lemma disco_raio_externo:
  "dis_raio_externo (DiscoAcrecao_novo m t s) = 500 * (2 * G * (m * MASSA_SOL) / C2)"
  by (simp add: DiscoAcrecao_novo_def Let_def)

lemma disco_taxa_acrecao:
  "dis_taxa_acrecao (DiscoAcrecao_novo m t s) = t * (1.26 * 10 ^ 38 * m) / (0.1 * C2)"
  by (simp add: DiscoAcrecao_novo_def Let_def)

lemma disco_raio_interno_schwarzschild:
  assumes "s < 0.01"
  shows "dis_raio_interno (DiscoAcrecao_novo m t s) = 3 * (2 * G * (m * MASSA_SOL) / C2)"
proof -
  have "max 0 (min 0.998 s) < (0.01 :: real)"
    using assms by simp
  then show ?thesis
    by (simp only: DiscoAcrecao_novo_def Let_def DiscoAcrecao.simps if_True)
qed

lemma rs_disco_pos: "0 < m \<Longrightarrow> 0 < 2 * G * (m * MASSA_SOL) / C2"
  by (simp add: G_pos C2_pos MASSA_SOL_pos)

lemma fator_isco:
  assumes "0 \<le> (s::real)" "s \<le> 1"
  shows "1 \<le> 3 + s - sqrt ((3 - s) * (1 + s))" "3 + s - sqrt ((3 - s) * (1 + s)) \<le> 4"
proof -
  have "(3 - s) * (1 + s) = 4 - (1 - s)\<^sup>2"
    by (simp add: power2_eq_square algebra_simps)
  then have "(3 - s) * (1 + s) \<le> 2\<^sup>2"
    by simp
  then have "sqrt ((3 - s) * (1 + s)) \<le> 2"
    using real_le_lsqrt by (metis real_sqrt_le_iff real_sqrt_abs abs_numeral)
  with assms show "1 \<le> 3 + s - sqrt ((3 - s) * (1 + s))"
    by linarith
  have "0 \<le> sqrt ((3 - s) * (1 + s))"
    using assms by simp
  with assms show "3 + s - sqrt ((3 - s) * (1 + s)) \<le> 4"
    by linarith
qed

lemma disco_raio_interno_bounds:
  assumes "0 < m"
  shows "2 * G * (m * MASSA_SOL) / C2 \<le> dis_raio_interno (DiscoAcrecao_novo m t s)"
    and "dis_raio_interno (DiscoAcrecao_novo m t s) \<le> 4 * (2 * G * (m * MASSA_SOL) / C2)"
proof -
  define rs where "rs = 2 * G * (m * MASSA_SOL) / C2"
  define sp :: real where "sp = max 0 (min 0.998 s)"
  define k where "k = 3 + sp - sqrt ((3 - sp) * (1 + sp))"
  have rs: "0 < rs"
    unfolding rs_def using assms by (rule rs_disco_pos)
  have sp: "0 \<le> sp" "sp \<le> 1"
    by (simp_all add: sp_def)
  have k: "1 \<le> k" "k \<le> 4"
    unfolding k_def using fator_isco [OF sp] by simp_all
  have eq: "dis_raio_interno (DiscoAcrecao_novo m t s)
      = (if sp < 0.01 then 3 * rs else rs * k)"
    by (simp only: DiscoAcrecao_novo_def Let_def DiscoAcrecao.simps rs_def sp_def k_def)
  have a: "rs * 1 \<le> rs * k" and b: "rs * k \<le> rs * 4"
    using k rs by (simp_all only: mult_le_cancel_left_pos)
  show "2 * G * (m * MASSA_SOL) / C2 \<le> dis_raio_interno (DiscoAcrecao_novo m t s)"
    unfolding rs_def [symmetric] eq using a rs by auto
  show "dis_raio_interno (DiscoAcrecao_novo m t s) \<le> 4 * (2 * G * (m * MASSA_SOL) / C2)"
    unfolding rs_def [symmetric] eq using b rs by (auto simp: mult.commute)
qed

lemma disco_raio_interno_pos:
  "0 < m \<Longrightarrow> 0 < dis_raio_interno (DiscoAcrecao_novo m t s)"
  using disco_raio_interno_bounds(1)[of m t s] rs_disco_pos[of m] by linarith

lemma disco_interno_lt_externo:
  "0 < m \<Longrightarrow> dis_raio_interno (DiscoAcrecao_novo m t s) < dis_raio_externo (DiscoAcrecao_novo m t s)"
proof -
  assume m: "0 < m"
  define rs where "rs = 2 * G * (m * MASSA_SOL) / C2"
  have "0 < rs" "dis_raio_interno (DiscoAcrecao_novo m t s) \<le> 4 * rs"
    "dis_raio_externo (DiscoAcrecao_novo m t s) = 500 * rs"
    unfolding rs_def using m
    by (rule rs_disco_pos, rule disco_raio_interno_bounds(2), simp add: disco_raio_externo)
  then show ?thesis by linarith
qed

lemma beta_kepleriana:
  assumes M: "0 < dis_massa_bh d" and r: "0 < r"
  shows "velocidade_kepleriana d r / C * (velocidade_kepleriana d r / C)
           = 2 * G * dis_massa_bh d / C2 / (2 * r)"
    and "0 \<le> velocidade_kepleriana d r / C"
proof -
  have nn: "0 \<le> G * dis_massa_bh d / r"
    using M r G_pos by simp
  have "velocidade_kepleriana d r * velocidade_kepleriana d r = G * dis_massa_bh d / r"
    unfolding velocidade_kepleriana_def using nn by (simp only: real_sqrt_mult_self abs_of_nonneg)
  then have "velocidade_kepleriana d r / C * (velocidade_kepleriana d r / C)
      = G * dis_massa_bh d / r / (C * C)"
    by (simp add: field_simps)
  also have "\<dots> = 2 * G * dis_massa_bh d / C2 / (2 * r)"
    using C_pos r by (simp add: C2_def field_simps)
  finally show "velocidade_kepleriana d r / C * (velocidade_kepleriana d r / C)
           = 2 * G * dis_massa_bh d / C2 / (2 * r)" .
  show "0 \<le> velocidade_kepleriana d r / C"
    unfolding velocidade_kepleriana_def using nn C_pos by simp
qed

lemma doppler_denominador:
  fixes b :: real
  assumes b0: "0 \<le> b" and b2: "b * b \<le> 1 / 6"
  shows "0 < 1 - b * b" and "0 < 1 / sqrt (1 - b * b)"
    and "0 < 1 / sqrt (1 - b * b) * (1 - b * cos phi)"
    and "0 < 1 / (1 / sqrt (1 - b * b) * (1 - b * cos phi))"
proof -
  show p: "0 < 1 - b * b"
    using b2 by linarith
  then show g: "0 < 1 / sqrt (1 - b * b)"
    by simp
  have "b < 1"
  proof (rule ccontr)
    assume "\<not> b < 1"
    then have "1 \<le> b" by simp
    then have "1 * 1 \<le> b * b"
      by (intro mult_mono) simp_all
    with b2 show False by simp
  qed
  moreover have "b * cos phi \<le> b * 1"
    using b0 by (intro mult_left_mono) simp_all
  ultimately have "0 < 1 - b * cos phi"
    by linarith
  with g show d: "0 < 1 / sqrt (1 - b * b) * (1 - b * cos phi)"
    by (rule mult_pos_pos)
  then show "0 < 1 / (1 / sqrt (1 - b * b) * (1 - b * cos phi))"
    by (simp only: zero_less_divide_1_iff)
qed

text \<open>
  C10. On a disk built with a positive mass and a spin below 0.01, the inner radius is
  \<open>3 r\<^sub>s\<close>, and for every radius \<open>r \<ge> r\<^sub>i\<^sub>n\<close> the Keplerian speed fraction \<open>\<beta> = v\<^sub>K / c\<close> has
  \<open>\<beta>\<^sup>2 = r\<^sub>s / (2 r) \<le> 1/6\<close>. So \<open>1 - \<beta>\<^sup>2\<close> is positive and the Lorentz factor is the
  quotient by the square root of a positive number; for every sight angle the
  denominator \<open>\<gamma> (1 - \<beta> cos \<phi>)\<close> is positive, and so is the Doppler factor.
\<close>

theorem fator_doppler_positivo:
  assumes m: "0 < massa_solar" and sp: "spin < 0.01"
    and r: "dis_raio_interno (DiscoAcrecao_novo massa_solar taxa spin) \<le> r"
  shows "let d = DiscoAcrecao_novo massa_solar taxa spin;
             rs = 2 * G * dis_massa_bh d / C2;
             beta = velocidade_kepleriana d r / C;
             gamma = 1 / sqrt (1 - beta * beta)
         in dis_raio_interno d = 3 * rs
          \<and> beta * beta = rs / (2 * r) \<and> beta * beta \<le> 1 / 6 \<and> 0 < 1 - beta * beta
          \<and> 0 < gamma
          \<and> (\<forall>phi. 0 < gamma * (1 - beta * cos phi) \<and> 0 < fator_doppler d r phi)"
proof -
  define d where "d = DiscoAcrecao_novo massa_solar taxa spin"
  define rs where "rs = 2 * G * dis_massa_bh d / C2"
  define b where "b = velocidade_kepleriana d r / C"
  have M: "0 < dis_massa_bh d"
    using m MASSA_SOL_pos by (simp add: d_def disco_massa_bh)
  have rs: "0 < rs"
    using rs_disco_pos [OF m] by (simp add: rs_def d_def disco_massa_bh)
  have rin: "dis_raio_interno d = 3 * rs"
    using disco_raio_interno_schwarzschild [OF sp] by (simp add: rs_def d_def disco_massa_bh)
  have r3: "3 * rs \<le> r"
    using r rin by (simp add: d_def)
  then have rpos: "0 < r"
    using rs by linarith
  have bb: "b * b = rs / (2 * r)" and b0: "0 \<le> b"
    unfolding b_def rs_def using beta_kepleriana [OF M rpos] by simp_all
  have b6: "b * b \<le> 1 / 6"
    unfolding bb using r3 rpos by (simp add: field_simps)
  have dop: "fator_doppler d r phi = 1 / (1 / sqrt (1 - b * b) * (1 - b * cos phi))" for phi
    by (simp add: fator_doppler_def b_def Let_def)
  show ?thesis
    unfolding Let_def d_def [symmetric] rs_def [symmetric] b_def [symmetric] dop
    using rin bb b6 doppler_denominador [OF b0 b6] by blast
qed

text \<open>At ten solar masses, twice the inner radius and the sight angle \<open>\<pi>\<close>.\<close>

theorem fator_doppler_positivo_witness:
  "(0::real) < 10 \<and> (0::real) < 0.01
   \<and> dis_raio_interno (DiscoAcrecao_novo 10 0.1 0)
        \<le> 2 * dis_raio_interno (DiscoAcrecao_novo 10 0.1 0)
   \<and> 0 < fator_doppler (DiscoAcrecao_novo 10 0.1 0)
            (2 * dis_raio_interno (DiscoAcrecao_novo 10 0.1 0)) pi"
proof -
  have h1: "(0::real) < 10" and h2: "(0::real) < 0.01"
    by simp_all
  have h3: "dis_raio_interno (DiscoAcrecao_novo 10 0.1 0)
        \<le> 2 * dis_raio_interno (DiscoAcrecao_novo 10 0.1 0)"
    using disco_raio_interno_pos [OF h1, of "0.1" 0] by simp
  have "0 < fator_doppler (DiscoAcrecao_novo 10 0.1 0)
            (2 * dis_raio_interno (DiscoAcrecao_novo 10 0.1 0)) pi"
    using fator_doppler_positivo [OF h1 h2 h3] unfolding Let_def by blast
  with h1 h2 h3 show ?thesis
    by blast
qed

lemma perfil_tende_a_zero:
  fixes a Te :: real
  assumes a: "0 < a"
  shows "((\<lambda>r. Te * (r / a) powr (- 0.75) * (max 0 (1 - sqrt (1 / (r / a)))) powr 0.25)
            \<longlongrightarrow> 0) (at a)"
proof -
  have x: "((\<lambda>r. r / a) \<longlongrightarrow> 1) (at a)"
    using a by (auto intro!: tendsto_eq_intros)
  have p1: "((\<lambda>r. (r / a) powr (- 0.75)) \<longlongrightarrow> 1 powr (- 0.75)) (at a)"
    by (rule tendsto_powr' [OF x tendsto_const]) simp
  have base: "((\<lambda>r. max 0 (1 - sqrt (1 / (r / a)))) \<longlongrightarrow> max 0 (1 - sqrt (1 / 1))) (at a)"
    by (intro tendsto_max tendsto_const tendsto_diff tendsto_real_sqrt tendsto_divide x) simp
  then have base0: "((\<lambda>r. max 0 (1 - sqrt (1 / (r / a)))) \<longlongrightarrow> 0) (at a)"
    by simp
  have p2: "((\<lambda>r. (max 0 (1 - sqrt (1 / (r / a)))) powr 0.25) \<longlongrightarrow> 0 powr 0.25) (at a)"
    by (rule tendsto_powr' [OF base0 tendsto_const]) simp
  have "((\<lambda>r. Te * (r / a) powr (- 0.75) * (max 0 (1 - sqrt (1 / (r / a)))) powr 0.25)
            \<longlongrightarrow> Te * 1 powr (- 0.75) * 0 powr 0.25) (at a)"
    by (intro tendsto_mult tendsto_const p1 p2)
  then show ?thesis
    by simp
qed

lemma sqrt_inverso_le_1: "1 \<le> (x::real) \<Longrightarrow> sqrt (1 / x) \<le> 1"
  by (simp add: real_sqrt_le_1_iff)

lemma sqrt_inverso_lt_1: "1 < (x::real) \<Longrightarrow> sqrt (1 / x) < 1"
  by (simp add: real_sqrt_lt_1_iff)

lemma powr_pos_de_pos: "0 < (x::real) \<Longrightarrow> 0 < x powr y"
  by simp

lemma T_estrela_pos:
  assumes m: "0 < m" and t: "0 < t"
  shows "0 < (3 * G * dis_massa_bh (DiscoAcrecao_novo m t s)
                * dis_taxa_acrecao (DiscoAcrecao_novo m t s)
              / (8 * pi * SIGMA_SB * dis_raio_interno (DiscoAcrecao_novo m t s) ^ 3)) powr 0.25"
proof -
  have M: "0 < dis_massa_bh (DiscoAcrecao_novo m t s)"
    using m MASSA_SOL_pos by (simp add: disco_massa_bh)
  have A: "0 < dis_taxa_acrecao (DiscoAcrecao_novo m t s)"
    using m t C2_pos by (simp add: disco_taxa_acrecao)
  have R: "0 < dis_raio_interno (DiscoAcrecao_novo m t s) ^ 3"
    using disco_raio_interno_pos [OF m] by simp
  have "0 < 3 * G * dis_massa_bh (DiscoAcrecao_novo m t s)
                * dis_taxa_acrecao (DiscoAcrecao_novo m t s)
              / (8 * pi * SIGMA_SB * dis_raio_interno (DiscoAcrecao_novo m t s) ^ 3)"
    using M A R G_pos SIGMA_SB_pos pi_gt_zero by simp
  then show ?thesis
    by (rule powr_pos_de_pos)
qed

lemma temperatura_dentro:
  assumes "dis_raio_interno d \<le> r" and "r \<le> dis_raio_externo d" and "0 < dis_raio_interno d"
  shows "temperatura d r
     = (3 * G * dis_massa_bh d * dis_taxa_acrecao d
          / (8 * pi * SIGMA_SB * dis_raio_interno d ^ 3)) powr 0.25
       * (r / dis_raio_interno d) powr (- 0.75)
       * (max 0 (1 - sqrt (1 / (r / dis_raio_interno d)))) powr 0.25"
proof -
  have "1 \<le> r / dis_raio_interno d"
    using assms by simp
  then have "sqrt (1 / (r / dis_raio_interno d)) \<le> 1"
    by (rule sqrt_inverso_le_1)
  then have "max 0 (1 - sqrt (1 / (r / dis_raio_interno d)))
      = 1 - sqrt (1 / (r / dis_raio_interno d))"
    by simp
  then show ?thesis
    using assms by (simp add: temperatura_def Let_def)
qed

lemma temperatura_fora:
  "r < dis_raio_interno d \<or> dis_raio_externo d < r \<Longrightarrow> temperatura d r = 0"
  by (simp add: temperatura_def)

lemma temperatura_positiva:
  assumes Te: "0 < (3 * G * dis_massa_bh d * dis_taxa_acrecao d
          / (8 * pi * SIGMA_SB * dis_raio_interno d ^ 3)) powr 0.25"
    and a: "0 < dis_raio_interno d"
    and r: "dis_raio_interno d < r" "r \<le> dis_raio_externo d"
  shows "0 < temperatura d r"
proof -
  have x: "1 < r / dis_raio_interno d"
    using a r by simp
  then have "sqrt (1 / (r / dis_raio_interno d)) < 1"
    by (rule sqrt_inverso_lt_1)
  then have "0 < 1 - sqrt (1 / (r / dis_raio_interno d))"
    by linarith
  then have b: "0 < (1 - sqrt (1 / (r / dis_raio_interno d))) powr 0.25"
    by (rule powr_pos_de_pos)
  have "0 < r / dis_raio_interno d"
    using x by linarith
  then have c: "0 < (r / dis_raio_interno d) powr (- 0.75)"
    by (rule powr_pos_de_pos)
  have "temperatura d r
     = (3 * G * dis_massa_bh d * dis_taxa_acrecao d
          / (8 * pi * SIGMA_SB * dis_raio_interno d ^ 3)) powr 0.25
       * (r / dis_raio_interno d) powr (- 0.75)
       * (1 - sqrt (1 / (r / dis_raio_interno d))) powr 0.25"
    using r by (simp add: temperatura_def Let_def)
  then show ?thesis
    using Te b c by simp
qed

lemma temperatura_borda_interna:
  assumes "0 < dis_raio_interno d" and "dis_raio_interno d \<le> dis_raio_externo d"
  shows "temperatura d (dis_raio_interno d) = 0"
  using assms by (simp add: temperatura_def Let_def)

lemma temperatura_continua_borda:
  assumes a: "0 < dis_raio_interno d" and ab: "dis_raio_interno d < dis_raio_externo d"
  shows "isCont (temperatura d) (dis_raio_interno d)"
proof -
  define a where "a = dis_raio_interno d"
  define Te where "Te = (3 * G * dis_massa_bh d * dis_taxa_acrecao d
          / (8 * pi * SIGMA_SB * dis_raio_interno d ^ 3)) powr 0.25"
  define F where "F = (\<lambda>r. Te * (r / a) powr (- 0.75) * (max 0 (1 - sqrt (1 / (r / a)))) powr 0.25)"
  have F0: "(F \<longlongrightarrow> 0) (at a)"
    unfolding F_def using assms(1) by (intro perfil_tende_a_zero) (simp add: a_def)
  have near: "eventually (\<lambda>r. norm (temperatura d r) \<le> norm (F r) * 1) (at a)"
    unfolding eventually_at
  proof (intro exI conjI ballI impI)
    show "0 < dis_raio_externo d - a"
      using ab by (simp add: a_def)
  next
    fix r :: real
    assume "r \<noteq> a \<and> dist r a < dis_raio_externo d - a"
    then have rb: "r < dis_raio_externo d"
      by (simp add: dist_real_def) linarith
    show "norm (temperatura d r) \<le> norm (F r) * 1"
    proof (cases "r < a")
      case True
      then show ?thesis
        by (simp add: temperatura_fora a_def)
    next
      case False
      then have "temperatura d r = F r"
        unfolding F_def Te_def a_def using rb assms(1) by (intro temperatura_dentro) simp_all
      then show ?thesis by simp
    qed
  qed
  have "(temperatura d \<longlongrightarrow> 0) (at a)"
    by (rule tendsto_0_le [OF F0 near])
  moreover have "temperatura d a = 0"
    unfolding a_def using assms by (intro temperatura_borda_interna) simp_all
  ultimately show ?thesis
    by (simp add: isCont_def a_def)
qed

text \<open>
  C4, as amended. On a disk built with a positive mass and a positive accretion
  fraction: \<open>T(r) > 0\<close> for every radius in the half-open annulus \<open>(r\<^sub>i\<^sub>n, r\<^sub>o\<^sub>u\<^sub>t]\<close>;
  \<open>T(r\<^sub>i\<^sub>n) = 0\<close>; \<open>T(r) = 0\<close> for every radius outside \<open>[r\<^sub>i\<^sub>n, r\<^sub>o\<^sub>u\<^sub>t]\<close>; and \<open>T\<close> is
  continuous at \<open>r\<^sub>i\<^sub>n\<close>.
\<close>

theorem temperatura_no_anel:
  assumes m: "0 < massa_solar" and t: "0 < taxa_eddington"
  shows "let d = DiscoAcrecao_novo massa_solar taxa_eddington spin in
           (\<forall>r. dis_raio_interno d < r \<and> r \<le> dis_raio_externo d \<longrightarrow> 0 < temperatura d r)
         \<and> temperatura d (dis_raio_interno d) = 0
         \<and> (\<forall>r. r < dis_raio_interno d \<or> dis_raio_externo d < r \<longrightarrow> temperatura d r = 0)
         \<and> isCont (temperatura d) (dis_raio_interno d)"
proof -
  define d where "d = DiscoAcrecao_novo massa_solar taxa_eddington spin"
  have a: "0 < dis_raio_interno d"
    unfolding d_def using m by (rule disco_raio_interno_pos)
  have ab: "dis_raio_interno d < dis_raio_externo d"
    unfolding d_def using m by (rule disco_interno_lt_externo)
  have Te: "0 < (3 * G * dis_massa_bh d * dis_taxa_acrecao d
          / (8 * pi * SIGMA_SB * dis_raio_interno d ^ 3)) powr 0.25"
    unfolding d_def using m t by (rule T_estrela_pos)
  have 1: "\<forall>r. dis_raio_interno d < r \<and> r \<le> dis_raio_externo d \<longrightarrow> 0 < temperatura d r"
    using temperatura_positiva [OF Te a] by blast
  have 2: "temperatura d (dis_raio_interno d) = 0"
    using a ab by (intro temperatura_borda_interna) simp_all
  have 3: "\<forall>r. r < dis_raio_interno d \<or> dis_raio_externo d < r \<longrightarrow> temperatura d r = 0"
    using temperatura_fora by blast
  have 4: "isCont (temperatura d) (dis_raio_interno d)"
    using a ab by (rule temperatura_continua_borda)
  show ?thesis
    unfolding Let_def d_def [symmetric] using 1 2 3 4 by blast
qed

text \<open>At ten solar masses: the inner edge, the outer edge and the radius zero.\<close>

theorem temperatura_no_anel_witness:
  "(0::real) < 10 \<and> (0::real) < 0.1
   \<and> temperatura (DiscoAcrecao_novo 10 0.1 0) (dis_raio_interno (DiscoAcrecao_novo 10 0.1 0)) = 0
   \<and> 0 < temperatura (DiscoAcrecao_novo 10 0.1 0) (dis_raio_externo (DiscoAcrecao_novo 10 0.1 0))
   \<and> temperatura (DiscoAcrecao_novo 10 0.1 0) 0 = 0"
proof -
  have h1: "(0::real) < 10" and h2: "(0::real) < 0.1"
    by simp_all
  note T = temperatura_no_anel [OF h1 h2, of 0, unfolded Let_def]
  have lt: "dis_raio_interno (DiscoAcrecao_novo 10 0.1 0)
      < dis_raio_externo (DiscoAcrecao_novo 10 0.1 0)"
    using h1 by (rule disco_interno_lt_externo)
  have pos: "0 < dis_raio_interno (DiscoAcrecao_novo 10 0.1 0)"
    using h1 by (rule disco_raio_interno_pos)
  have a: "temperatura (DiscoAcrecao_novo 10 0.1 0)
      (dis_raio_interno (DiscoAcrecao_novo 10 0.1 0)) = 0"
    using T by blast
  have b: "0 < temperatura (DiscoAcrecao_novo 10 0.1 0)
      (dis_raio_externo (DiscoAcrecao_novo 10 0.1 0))"
    using T lt by blast
  have c: "temperatura (DiscoAcrecao_novo 10 0.1 0) 0 = 0"
    using T pos by blast
  show ?thesis
    using h1 h2 a b c by blast
qed

text \<open>
  The inner radius lies in the closed annulus, and the temperature there is zero, not
  positive.
\<close>

theorem temperatura_counterexample:
  "no_disco (DiscoAcrecao_novo 10 0.1 0) (dis_raio_interno (DiscoAcrecao_novo 10 0.1 0))
   \<and> \<not> 0 < temperatura (DiscoAcrecao_novo 10 0.1 0)
             (dis_raio_interno (DiscoAcrecao_novo 10 0.1 0))"
proof -
  have h1: "(0::real) < 10"
    by simp
  have lt: "dis_raio_interno (DiscoAcrecao_novo 10 0.1 0)
      < dis_raio_externo (DiscoAcrecao_novo 10 0.1 0)"
    using h1 by (rule disco_interno_lt_externo)
  have pos: "0 < dis_raio_interno (DiscoAcrecao_novo 10 0.1 0)"
    using h1 by (rule disco_raio_interno_pos)
  have "temperatura (DiscoAcrecao_novo 10 0.1 0)
      (dis_raio_interno (DiscoAcrecao_novo 10 0.1 0)) = 0"
    using pos lt by (intro temperatura_borda_interna) simp_all
  then show ?thesis
    using lt by (simp add: no_disco_def)
qed

section \<open>The PPM writer\<close>

text \<open>
  Facts about the rounding: an integer of magnitude up to \<open>2\<^sup>5\<^sup>3\<close> times the unit is a
  multiple of the unit, so rounding never crosses it; three values of the rounding.
\<close>

lemma ulp_pos: "0 < ulp x"
  by (simp add: ulp_def)

lemma meio_par_ge: "\<lfloor>q\<rfloor> \<le> meio_par q"
  by (simp add: meio_par_def Let_def)

lemma meio_par_le: "meio_par q \<le> \<lceil>q\<rceil>"
proof (cases "q = of_int \<lfloor>q\<rfloor>")
  case True
  then have "q - of_int \<lfloor>q\<rfloor> < 1 / 2"
    by simp
  then have "meio_par q = \<lfloor>q\<rfloor>"
    by (simp add: meio_par_def Let_def)
  then show ?thesis
    by (simp add: floor_le_ceiling)
next
  case False
  then have "\<lceil>q\<rceil> = \<lfloor>q\<rfloor> + 1"
    by (metis ceiling_altdef)
  moreover have "meio_par q \<le> \<lfloor>q\<rfloor> + 1"
    by (simp add: meio_par_def Let_def)
  ultimately show ?thesis
    by simp
qed

lemma inteiro_sobre_ulp:
  assumes "expoente x \<le> 52"
  shows "of_int n / ulp x = of_int (n * 2 ^ nat (52 - expoente x))"
proof -
  have "ulp x = 2 powi (- (52 - expoente x))"
    by (simp add: ulp_def)
  also have "\<dots> = inverse (2 powi (52 - expoente x))"
    by (rule power_int_minus)
  also have "2 powi (52 - expoente x) = (2 :: real) ^ nat (52 - expoente x)"
    using assms by (simp add: power_int_def)
  finally have "ulp x = inverse (2 ^ nat (52 - expoente x))" .
  then show ?thesis
    by (simp add: divide_inverse)
qed

lemma fl64_ge:
  assumes x: "x \<noteq> 0" and e: "expoente x \<le> 52" and n: "of_int n \<le> x"
  shows "of_int n \<le> fl64 x"
proof -
  define m where "m = n * 2 ^ nat (52 - expoente x)"
  have m: "of_int n / ulp x = of_int m"
    unfolding m_def by (rule inteiro_sobre_ulp [OF e])
  have "of_int n / ulp x \<le> x / ulp x"
    using n ulp_pos [of x] by (simp add: divide_right_mono)
  then have "m \<le> \<lfloor>x / ulp x\<rfloor>"
    unfolding m by (simp add: le_floor_iff)
  then have "m \<le> meio_par (x / ulp x)"
    using meio_par_ge [of "x / ulp x"] by simp
  then have "of_int m * ulp x \<le> of_int (meio_par (x / ulp x)) * ulp x"
    using ulp_pos [of x] by (simp add: mult_right_mono)
  moreover have "of_int m * ulp x = of_int n"
    using m ulp_pos [of x] by (simp add: field_simps)
  ultimately show ?thesis
    using x by (simp add: fl64_def)
qed

lemma fl64_le:
  assumes x: "x \<noteq> 0" and e: "expoente x \<le> 52" and n: "x \<le> of_int n"
  shows "fl64 x \<le> of_int n"
proof -
  define m where "m = n * 2 ^ nat (52 - expoente x)"
  have m: "of_int n / ulp x = of_int m"
    unfolding m_def by (rule inteiro_sobre_ulp [OF e])
  have "x / ulp x \<le> of_int n / ulp x"
    using n ulp_pos [of x] by (simp add: divide_right_mono)
  then have "\<lceil>x / ulp x\<rceil> \<le> m"
    unfolding m by (simp add: ceiling_le_iff)
  then have "meio_par (x / ulp x) \<le> m"
    using meio_par_le [of "x / ulp x"] by simp
  then have "of_int (meio_par (x / ulp x)) * ulp x \<le> of_int m * ulp x"
    using ulp_pos [of x] by (simp add: mult_right_mono)
  moreover have "of_int m * ulp x = of_int n"
    using m ulp_pos [of x] by (simp add: field_simps)
  ultimately show ?thesis
    using x by (simp add: fl64_def)
qed

lemma expoente_le:
  assumes "0 < x" and "x \<le> 255"
  shows "expoente x \<le> 7"
proof -
  have "x < 2 powr 8"
    using assms by simp
  then have "log 2 x < 8"
    using assms by (simp add: log_less_iff)
  then have "\<lfloor>log 2 x\<rfloor> < 8"
    by (simp add: floor_less_iff)
  then show ?thesis
    using assms by (simp add: expoente_def)
qed

lemma fl64_faixa:
  assumes "0 \<le> x" and "x \<le> 255"
  shows "0 \<le> fl64 x" and "fl64 x \<le> 255"
proof -
  show "0 \<le> fl64 x"
  proof (cases "x = 0")
    case True
    then show ?thesis by (simp add: fl64_def)
  next
    case False
    then have "expoente x \<le> 52"
      using expoente_le [of x] assms by simp
    from fl64_ge [OF False this, of 0] assms show ?thesis by simp
  qed
  show "fl64 x \<le> 255"
  proof (cases "x = 0")
    case True
    then show ?thesis by (simp add: fl64_def)
  next
    case False
    then have "expoente x \<le> 52"
      using expoente_le [of x] assms by simp
    from fl64_le [OF False this, of 255] assms show ?thesis by simp
  qed
qed

lemma fl64_piso:
  assumes "0 \<le> x" and "x \<le> 255"
  shows "\<lfloor>x\<rfloor> \<le> \<lfloor>fl64 x\<rfloor>" and "\<lfloor>fl64 x\<rfloor> \<le> \<lfloor>x\<rfloor> + 1"
    and "\<lfloor>fl64 x\<rfloor> = \<lfloor>x\<rfloor> + 1 \<Longrightarrow> fl64 x = of_int (\<lfloor>x\<rfloor> + 1)"
proof -
  have a: "of_int \<lfloor>x\<rfloor> \<le> fl64 x \<and> fl64 x \<le> of_int (\<lfloor>x\<rfloor> + 1)"
  proof (cases "x = 0")
    case True
    then show ?thesis by (simp add: fl64_def)
  next
    case False
    then have e: "expoente x \<le> 52"
      using expoente_le [of x] assms by simp
    have "of_int \<lfloor>x\<rfloor> \<le> fl64 x"
      by (rule fl64_ge [OF False e]) simp
    moreover have "fl64 x \<le> of_int (\<lfloor>x\<rfloor> + 1)"
      by (rule fl64_le [OF False e]) linarith
    ultimately show ?thesis by simp
  qed
  from a show "\<lfloor>x\<rfloor> \<le> \<lfloor>fl64 x\<rfloor>"
    by (simp add: le_floor_iff)
  from a show "\<lfloor>fl64 x\<rfloor> \<le> \<lfloor>x\<rfloor> + 1"
    by (simp add: floor_le_iff)
  assume "\<lfloor>fl64 x\<rfloor> = \<lfloor>x\<rfloor> + 1"
  then have "of_int (\<lfloor>x\<rfloor> + 1) \<le> fl64 x"
    by (metis of_int_floor_le)
  with a show "fl64 x = of_int (\<lfloor>x\<rfloor> + 1)"
    by linarith
qed

lemma expoente_eq:
  assumes "0 < x" and "2 powr of_int k \<le> x" and "x < 2 powr of_int (k + 1)" and "- 1022 \<le> k"
  shows "expoente x = k"
proof -
  have "\<lfloor>log 2 x\<rfloor> = k"
    using assms by (simp add: floor_log_eq_powr_iff)
  then show ?thesis
    using assms by (simp add: expoente_def)
qed

lemma fl64_meio: "fl64 (255 / 2) = 255 / 2"
proof -
  have e: "expoente (255 / 2) = 6"
    by (rule expoente_eq) (simp_all add: powr_real_of_int)
  have u: "ulp (255 / 2) = 1 / 2 ^ 46"
    by (simp add: ulp_def e power_int_def inverse_eq_divide power_one_over)
  have q: "255 / 2 / (1 / 2 ^ 46) = (of_int (255 * 2 ^ 45) :: real)"
    by simp
  have m: "meio_par (of_int (255 * 2 ^ 45)) = 255 * 2 ^ 45"
    unfolding meio_par_def Let_def floor_of_int by simp
  show ?thesis
    unfolding fl64_def u q m by simp
qed

lemma fl64_255: "fl64 255 = 255"
proof -
  have e: "expoente 255 = 7"
    by (rule expoente_eq) (simp_all add: powr_real_of_int)
  have u: "ulp 255 = 1 / 2 ^ 45"
    by (simp add: ulp_def e power_int_def inverse_eq_divide power_one_over)
  have q: "255 / (1 / 2 ^ 45) = (of_int (255 * 2 ^ 45) :: real)"
    by simp
  have m: "meio_par (of_int (255 * 2 ^ 45)) = 255 * 2 ^ 45"
    unfolding meio_par_def Let_def floor_of_int by simp
  show ?thesis
    unfolding fl64_def u q m by simp
qed

lemma fl64_um_sobre_255: "fl64 (282578800148737 / 2 ^ 56 * 255) = 1"
proof -
  define x :: real where "x = 282578800148737 / 2 ^ 56 * 255"
  have x: "x = 1 - 1 / 2 ^ 56"
    by (simp add: x_def)
  have e: "expoente x = - 1"
    by (rule expoente_eq) (simp_all add: x powr_real_of_int)
  have u: "ulp x = 1 / 2 ^ 53"
    by (simp add: ulp_def e power_int_def inverse_eq_divide power_one_over)
  have q: "x / (1 / 2 ^ 53) = of_int (2 ^ 53 - 1) + 7 / 8"
    by (simp add: x)
  have f: "\<lfloor>of_int (2 ^ 53 - 1) + 7 / 8 :: real\<rfloor> = 2 ^ 53 - 1"
    by (rule floor_unique) simp_all
  have m: "meio_par (of_int (2 ^ 53 - 1) + 7 / 8) = 2 ^ 53"
    unfolding meio_par_def Let_def f by simp
  have "x \<noteq> 0"
    by (simp add: x)
  then have "fl64 x = 1"
    unfolding fl64_def u q m by simp
  then show ?thesis
    by (simp add: x_def)
qed

lemma fl64_zero: "fl64 0 = 0"
  by (simp add: fl64_def)

lemma length_concat_uniforme:
  "\<forall>xs \<in> set xss. length xs = n \<Longrightarrow> length (concat xss) = length xss * n"
  by (induction xss) simp_all

lemma nth_concat_uniforme:
  "\<forall>xs \<in> set xss. length xs = n \<Longrightarrow> k < length xss \<Longrightarrow> l < n
     \<Longrightarrow> concat xss ! (k * n + l) = xss ! k ! l"
proof (induction xss arbitrary: k)
  case Nil
  then show ?case by simp
next
  case (Cons xs xss)
  show ?case
  proof (cases k)
    case 0
    with Cons.prems show ?thesis by (simp add: nth_append)
  next
    case (Suc k')
    with Cons.prems have "concat xss ! (k' * n + l) = xss ! k' ! l"
      by (intro Cons.IH) simp_all
    with Suc Cons.prems show ?thesis by (simp add: nth_append)
  qed
qed

lemma byte_do_canal:
  "(of_char (escreve_byte (para_uint8 (fl64 (max 0 (min 1 c) * 255)))) :: int) = byte_truncado c"
proof -
  define y where "y = fl64 (max 0 (min 1 c) * 255)"
  define n where "n = \<lfloor>y\<rfloor>"
  have lo: "0 \<le> y"
    unfolding y_def by (rule fl64_faixa(1)) simp_all
  have hi: "y \<le> 255"
    unfolding y_def by (rule fl64_faixa(2)) simp_all
  have n0: "0 \<le> n"
    unfolding n_def using lo by simp
  have n255: "n \<le> 255"
    unfolding n_def using hi by (simp add: floor_le_iff)
  have p: "para_uint8 y = word_of_int n"
    unfolding para_uint8_def n_def using lo by simp
  have "unat (word_of_int n :: 8 word) = nat n"
    using n0 n255 by (simp add: unat_eq_nat_uint uint_word_of_int take_bit_eq_mod)
  then have "(of_char (escreve_byte (word_of_int n)) :: nat) = nat n"
    using n0 n255 by (simp add: escreve_byte_def)
  then have "int (of_char (escreve_byte (word_of_int n))) = n"
    using n0 by simp
  then have "(of_char (escreve_byte (word_of_int n)) :: int) = n"
    by (simp only: of_nat_of_char)
  then show ?thesis
    unfolding byte_truncado_def y_def [symmetric] p n_def [symmetric] .
qed

text \<open>
  The byte against the exact product \<open>x = clamp(c, 0, 1) \<cdot> 255\<close>: it is \<open>\<lfloor>x\<rfloor>\<close>, or \<open>\<lfloor>x\<rfloor> + 1\<close> when
  the product rounds up to that integer.
\<close>

lemma byte_truncado_limites:
  "\<lfloor>max 0 (min 1 c) * 255\<rfloor> \<le> byte_truncado c"
  "byte_truncado c \<le> \<lfloor>max 0 (min 1 c) * 255\<rfloor> + 1"
  unfolding byte_truncado_def
  by (rule fl64_piso(1), simp, simp) (rule fl64_piso(2), simp, simp)

lemma corpo_ppm_length:
  "length (corpo_ppm imagem W H) = 3 * (W * H)"
proof -
  have row: "length (concat (map (\<lambda>i. (let p = pixel_clamp (imagem ! j ! i) in
                 [escreve_byte (r_byte p), escreve_byte (g_byte p), escreve_byte (b_byte p)]))
               [0..<W])) = W * 3" for j
    using length_concat_uniforme [of "map (\<lambda>i. (let p = pixel_clamp (imagem ! j ! i) in
                 [escreve_byte (r_byte p), escreve_byte (g_byte p), escreve_byte (b_byte p)]))
               [0..<W]" 3]
    by (simp add: Let_def)
  show ?thesis
    unfolding corpo_ppm_def
    using length_concat_uniforme [of "map (\<lambda>j. concat (map (\<lambda>i. (let p = pixel_clamp (imagem ! j ! i) in
                 [escreve_byte (r_byte p), escreve_byte (g_byte p), escreve_byte (b_byte p)]))
               [0..<W])) [0..<H]" "W * 3"] row
    by simp
qed

lemma corpo_ppm_nth:
  assumes j: "j < H" and i: "i < W" and c: "c < 3"
  shows "corpo_ppm imagem W H ! (3 * (j * W + i) + c)
     = [escreve_byte (r_byte (pixel_clamp (imagem ! j ! i))),
        escreve_byte (g_byte (pixel_clamp (imagem ! j ! i))),
        escreve_byte (b_byte (pixel_clamp (imagem ! j ! i)))] ! c"
proof -
  let ?pix = "\<lambda>j i. (let p = pixel_clamp (imagem ! j ! i) in
                 [escreve_byte (r_byte p), escreve_byte (g_byte p), escreve_byte (b_byte p)])"
  let ?row = "\<lambda>j. concat (map (?pix j) [0..<W])"
  have rowlen: "length (?row j) = W * 3" for j
    using length_concat_uniforme [of "map (?pix j) [0..<W]" 3] by (simp add: Let_def)
  have inrow: "i * 3 + c < W * 3"
    using i c by simp
  have idx: "3 * (j * W + i) + c = j * (W * 3) + (i * 3 + c)"
    by (simp add: algebra_simps)
  have "concat (map ?row [0..<H]) ! (j * (W * 3) + (i * 3 + c)) = map ?row [0..<H] ! j ! (i * 3 + c)"
    using j inrow rowlen by (intro nth_concat_uniforme) simp_all
  also have "\<dots> = ?row j ! (i * 3 + c)"
    using j by simp
  also have "\<dots> = map (?pix j) [0..<W] ! i ! c"
    using i c by (intro nth_concat_uniforme) (simp_all add: Let_def)
  also have "\<dots> = ?pix j i ! c"
    using i by simp
  finally show ?thesis
    unfolding corpo_ppm_def idx by (simp add: Let_def)
qed

lemma salvar_ppm_Inr:
  assumes "salvar_ppm imagem aberto = Inr conteudo"
  shows "aberto" and "imagem \<noteq> []"
    and "\<forall>linha \<in> set imagem. length (imagem ! 0) \<le> length linha"
    and "conteudo = cabecalho_ppm (length (imagem ! 0)) (length imagem)
                      @ corpo_ppm imagem (length (imagem ! 0)) (length imagem)"
  using assms by (auto simp: salvar_ppm_def Let_def not_less split: if_splits)

text \<open>
  C7, as amended. Whenever \<open>salvar_ppm\<close> succeeds, the file is the header
  \<^verbatim>\<open>P6\n<W> <H>\n255\n\<close> followed by exactly \<open>3 W H\<close> bytes, and for the pixel in row \<open>j\<close> and
  column \<open>i\<close> the three bytes at offset \<open>3 (j W + i)\<close> of the body are its red, green and
  blue channels, each computed as \<open>\<lfloor>fl(clamp(c, 0, 1) \<cdot> 255)\<rfloor>\<close>, where \<open>fl\<close> rounds the product
  to double precision: the cast truncates, it does not round.
\<close>

theorem salvar_ppm_bytes:
  assumes "salvar_ppm imagem aberto = Inr conteudo"
  shows "let H = length imagem; W = length (imagem ! 0); cab = cabecalho_ppm W H in
           take (length cab) conteudo = cab
         \<and> length conteudo = length cab + 3 * (W * H)
         \<and> (\<forall>j<H. \<forall>i<W.
               of_char (conteudo ! (length cab + 3 * (j * W + i)))
                 = byte_truncado (px_r (imagem ! j ! i))
             \<and> of_char (conteudo ! (length cab + 3 * (j * W + i) + 1))
                 = byte_truncado (px_g (imagem ! j ! i))
             \<and> of_char (conteudo ! (length cab + 3 * (j * W + i) + 2))
                 = byte_truncado (px_b (imagem ! j ! i)))"
proof -
  define H where "H = length imagem"
  define W where "W = length (imagem ! 0)"
  define cab where "cab = cabecalho_ppm W H"
  have c: "conteudo = cab @ corpo_ppm imagem W H"
    using salvar_ppm_Inr(4) [OF assms] by (simp add: cab_def W_def H_def)
  have 1: "take (length cab) conteudo = cab"
    by (simp add: c)
  have 2: "length conteudo = length cab + 3 * (W * H)"
    by (simp add: c corpo_ppm_length)
  have 3: "of_char (conteudo ! (length cab + 3 * (j * W + i)))
                 = byte_truncado (px_r (imagem ! j ! i))
             \<and> of_char (conteudo ! (length cab + 3 * (j * W + i) + 1))
                 = byte_truncado (px_g (imagem ! j ! i))
             \<and> of_char (conteudo ! (length cab + 3 * (j * W + i) + 2))
                 = byte_truncado (px_b (imagem ! j ! i))"
    if j: "j < H" and i: "i < W" for j i
  proof -
    have n: "conteudo ! (length cab + k) = corpo_ppm imagem W H ! k" for k
      by (simp add: c nth_append)
    have r: "corpo_ppm imagem W H ! (3 * (j * W + i))
        = escreve_byte (r_byte (pixel_clamp (imagem ! j ! i)))"
      using corpo_ppm_nth [OF j i, of 0 imagem] by simp
    have g: "corpo_ppm imagem W H ! (3 * (j * W + i) + 1)
        = escreve_byte (g_byte (pixel_clamp (imagem ! j ! i)))"
      using corpo_ppm_nth [OF j i, of 1 imagem] by simp
    have b: "corpo_ppm imagem W H ! (3 * (j * W + i) + 2)
        = escreve_byte (b_byte (pixel_clamp (imagem ! j ! i)))"
      using corpo_ppm_nth [OF j i, of 2 imagem] by simp
    have R: "of_char (conteudo ! (length cab + 3 * (j * W + i)))
                 = byte_truncado (px_r (imagem ! j ! i))"
      unfolding n r by (simp add: r_byte_def pixel_clamp_def byte_do_canal)
    have G: "of_char (conteudo ! (length cab + 3 * (j * W + i) + 1))
                 = byte_truncado (px_g (imagem ! j ! i))"
      unfolding add.assoc n g by (simp add: g_byte_def pixel_clamp_def byte_do_canal)
    have B: "of_char (conteudo ! (length cab + 3 * (j * W + i) + 2))
                 = byte_truncado (px_b (imagem ! j ! i))"
      unfolding add.assoc n b by (simp add: b_byte_def pixel_clamp_def byte_do_canal)
    show ?thesis
      using R G B by blast
  qed
  show ?thesis
    unfolding Let_def H_def [symmetric] W_def [symmetric] cab_def [symmetric]
    using 1 2 3 by blast
qed

text \<open>
  A raster of one row and two pixels. The channels \<open>0.5\<close>, \<open>2\<close> and \<open>-1\<close> of the first give
  the bytes 127, 255 and 0. The first channel of the second is the double nearest to
  \<open>1/255\<close>, \<open>282578800148737 / 2\<^sup>5\<^sup>6\<close>: its exact product with 255 is \<open>1 - 2\<^sup>-\<^sup>5\<^sup>6\<close>, which rounds to
  \<open>1\<close>, and the byte is 1 although the exact product truncates to 0.
\<close>

theorem salvar_ppm_bytes_witness:
  "salvar_ppm [ [\<lparr>px_r = 0.5, px_g = 2, px_b = - 1\<rparr>,
                 \<lparr>px_r = 282578800148737 / 2 ^ 56, px_g = 0, px_b = 1\<rparr>] ] True
     = Inr (''P6'' @ [CHR 0x0A] @ ''2 1'' @ [CHR 0x0A] @ ''255'' @ [CHR 0x0A]
            @ [char_of (127 :: nat), char_of (255 :: nat), char_of (0 :: nat),
               char_of (1 :: nat), char_of (0 :: nat), char_of (255 :: nat)])
   \<and> (of_char (char_of (127 :: nat)) :: int) = byte_truncado 0.5
   \<and> (of_char (char_of (1 :: nat)) :: int) = byte_truncado (282578800148737 / 2 ^ 56)
   \<and> \<lfloor>282578800148737 / 2 ^ 56 * 255 :: real\<rfloor> = 0"
proof -
  let ?img = "[ [\<lparr>px_r = 0.5, px_g = 2, px_b = - 1\<rparr>,
                 \<lparr>px_r = 282578800148737 / 2 ^ 56, px_g = 0, px_b = 1\<rparr>] ]"
  let ?cab = "''P6'' @ [CHR 0x0A] @ ''2 1'' @ [CHR 0x0A] @ ''255'' @ [CHR 0x0A]"
  let ?corpo = "[char_of (127 :: nat), char_of (255 :: nat), char_of (0 :: nat),
               char_of (1 :: nat), char_of (0 :: nat), char_of (255 :: nat)]"
  have f: "\<lfloor>255 / 2 :: real\<rfloor> = 127"
    by simp
  have cab: "cabecalho_ppm 2 1 = ?cab"
    by code_simp
  have p1: "pixel_clamp \<lparr>px_r = 0.5, px_g = 2, px_b = - 1\<rparr>
      = \<lparr>px_r = 1 / 2, px_g = 1, px_b = 0\<rparr>"
    by (simp add: pixel_clamp_def)
  have p2: "pixel_clamp \<lparr>px_r = 282578800148737 / 2 ^ 56, px_g = 0, px_b = 1\<rparr>
      = \<lparr>px_r = 282578800148737 / 2 ^ 56, px_g = 0, px_b = 1\<rparr>"
    by (simp add: pixel_clamp_def)
  have b1: "r_byte \<lparr>px_r = 1 / 2, px_g = 1, px_b = 0\<rparr> = 127"
    "g_byte \<lparr>px_r = 1 / 2, px_g = 1, px_b = 0\<rparr> = 255"
    "b_byte \<lparr>px_r = 1 / 2, px_g = 1, px_b = 0\<rparr> = 0"
    by (simp_all add: r_byte_def g_byte_def b_byte_def para_uint8_def
        fl64_meio fl64_255 fl64_zero f)
  have b2: "r_byte \<lparr>px_r = 282578800148737 / 2 ^ 56, px_g = 0, px_b = 1\<rparr> = 1"
    "g_byte \<lparr>px_r = 282578800148737 / 2 ^ 56, px_g = 0, px_b = 1\<rparr> = 0"
    "b_byte \<lparr>px_r = 282578800148737 / 2 ^ 56, px_g = 0, px_b = 1\<rparr> = 255"
    unfolding r_byte_def g_byte_def b_byte_def Pixel.simps fl64_um_sobre_255
    by (simp_all add: para_uint8_def fl64_255 fl64_zero)
  have u1: "[0..<1] = [0]"
    by simp
  have u2: "[0..<2] = [0, Suc 0]"
    by (simp add: upt_rec)
  have "corpo_ppm ?img 2 1
      = [escreve_byte 127, escreve_byte 255, escreve_byte 0,
         escreve_byte 1, escreve_byte 0, escreve_byte 255]"
    unfolding corpo_ppm_def u1 u2
    by (simp only: list.map concat.simps append.simps nth_Cons_0 nth_Cons_Suc Let_def
        p1 p2 b1 b2)
  then have corpo: "corpo_ppm ?img 2 1 = ?corpo"
    by (simp add: escreve_byte_def)
  have e: "salvar_ppm ?img True = Inr (?cab @ ?corpo)"
    unfolding cab [symmetric] corpo [symmetric]
    by (simp add: salvar_ppm_def numeral_2_eq_2)
  have cab': "cabecalho_ppm (Suc (Suc 0)) (Suc 0) = ?cab"
    using cab by (simp add: numeral_2_eq_2)
  note t = salvar_ppm_bytes [OF e, unfolded Let_def, THEN conjunct2, THEN conjunct2, rule_format]
  have "(of_char (char_of (127 :: nat)) :: int) = byte_truncado 0.5"
    using t [of 0 0] by (simp add: cab')
  moreover have "(of_char (char_of (1 :: nat)) :: int) = byte_truncado (282578800148737 / 2 ^ 56)"
    using t [of 0 1] by (simp add: cab')
  moreover have "\<lfloor>282578800148737 / 2 ^ 56 * 255 :: real\<rfloor> = 0"
    by (rule floor_unique) simp_all
  ultimately show ?thesis
    using e by simp
qed

text \<open>
  For the channel value \<open>0.5\<close> the product \<open>127.5\<close> is a double, the byte written has code
  127, and rounding \<open>0.5 \<cdot> 255 = 127.5\<close> gives 128.
\<close>

theorem salvar_ppm_counterexample:
  "salvar_ppm [ [\<lparr>px_r = 0.5, px_g = 2, px_b = - 1\<rparr>] ] True
     = Inr (cabecalho_ppm 1 1 @ [char_of (127 :: nat), char_of (255 :: nat), char_of (0 :: nat)])
   \<and> byte_arredondado 0.5 = 128"
proof -
  have f: "\<lfloor>255 / 2 :: real\<rfloor> = 127"
    by simp
  have e: "salvar_ppm [ [\<lparr>px_r = 0.5, px_g = 2, px_b = - 1\<rparr>] ] True
     = Inr (cabecalho_ppm 1 1 @ [char_of (127 :: nat), char_of (255 :: nat), char_of (0 :: nat)])"
    by (simp add: salvar_ppm_def corpo_ppm_def pixel_clamp_def
        r_byte_def g_byte_def b_byte_def para_uint8_def escreve_byte_def
        fl64_meio fl64_255 fl64_zero f)
  have "byte_arredondado 0.5 = 128"
    by (simp add: byte_arredondado_def round_def)
  with e show ?thesis
    by blast
qed

section \<open>Rendering with threads\<close>

lemma blocos_regulares:
  "concat (map (\<lambda>t. [t * q..<(t + 1) * q]) [0..<n]) = [0..<n * q]"
proof (induction n)
  case 0
  then show ?case by simp
next
  case (Suc n)
  have "[0..<n * q] @ [n * q..<(n + 1) * q] = [0..<(n + 1) * q]"
    by (metis Suc_eq_plus1 le_add1 mult_Suc upt_add_eq_append add.commute zero_le)
  with Suc show ?case by simp
qed

lemma linhas_visitadas_todas:
  assumes "1 \<le> T"
  shows "linhas_visitadas H T = [0..<H]"
proof -
  obtain n where T: "T = Suc n"
    using assms by (cases T) simp_all
  define q where "q = H div T"
  have le: "n * q \<le> H"
  proof -
    have "n * q \<le> T * q" by (simp add: T)
    also have "\<dots> \<le> H" by (simp add: q_def)
    finally show ?thesis .
  qed
  have front: "map (\<lambda>t. [t * q..<(if t = T - 1 then H else (t + 1) * q)]) [0..<n]
      = map (\<lambda>t. [t * q..<(t + 1) * q]) [0..<n]"
    by (rule map_cong) (simp_all add: T)
  have "linhas_visitadas H T
      = concat (map (\<lambda>t. [t * q..<(if t = T - 1 then H else (t + 1) * q)]) [0..<T])"
    unfolding linhas_visitadas_def blocos_def Let_def q_def map_map comp_def prod.case ..
  also have "\<dots> = concat (map (\<lambda>t. [t * q..<(if t = T - 1 then H else (t + 1) * q)]) [0..<n])
      @ [n * q..<H]"
    by (simp add: T)
  also have "\<dots> = [0..<n * q] @ [n * q..<H]"
    by (simp only: front blocos_regulares)
  also have "\<dots> = [0..<H]"
    using le by (metis le_Suc_ex upt_add_eq_append zero_le)
  finally show ?thesis .
qed

lemma posicoes_append: "posicoes (es @ fs) = posicoes es @ posicoes fs"
  by (induction es rule: posicoes.induct) simp_all

lemma posicoes_concat: "posicoes (concat ess) = concat (map posicoes ess)"
  by (induction ess) (simp_all add: posicoes_append)

lemma posicoes_escritas: "posicoes (map (\<lambda>i. Escreve j i (f i)) is) = map (\<lambda>i. (j, i)) is"
  by (induction "is") simp_all

lemma posicoes_processar_bloco:
  "posicoes (processar_bloco rt a b)
     = concat (map (\<lambda>j. map (\<lambda>i. (j, i)) [0..<nat (cam_largura (rt_camera rt))]) [a..<b])"
  by (simp add: processar_bloco_def posicoes_concat posicoes_append posicoes_escritas comp_def)

lemma posicoes_eventos_render:
  "posicoes (eventos_render rt)
     = concat (map (\<lambda>j. map (\<lambda>i. (j, i)) [0..<nat (cam_largura (rt_camera rt))])
                   (linhas_visitadas (nat (cam_altura (rt_camera rt))) (nat (rt_num_threads rt))))"
proof -
  have "posicoes (concat (map (\<lambda>(a, b). processar_bloco rt a b) bs))
      = concat (map (\<lambda>j. map (\<lambda>i. (j, i)) [0..<nat (cam_largura (rt_camera rt))])
                    (concat (map (\<lambda>(a, b). [a..<b]) bs)))" for bs
    by (induction bs) (auto simp: posicoes_append posicoes_processar_bloco)
  then show ?thesis
    by (simp add: eventos_render_def linhas_visitadas_def)
qed

lemma posicoes_com_threads:
  assumes "1 \<le> rt_num_threads rt"
  shows "posicoes (eventos_render rt)
     = List.product [0..<nat (cam_altura (rt_camera rt))] [0..<nat (cam_largura (rt_camera rt))]"
proof -
  have "1 \<le> nat (rt_num_threads rt)"
    using assms by simp
  then show ?thesis
    by (simp add: posicoes_eventos_render linhas_visitadas_todas product_concat_map)
qed

lemma set_threads_campos:
  "rt_num_threads (set_threads rt n) = max 1 n"
  "rt_camera (set_threads rt n) = rt_camera rt"
  "rt_metrica (set_threads rt n) = rt_metrica rt"
  "rt_disco (set_threads rt n) = rt_disco rt"
  "rt_rs (set_threads rt n) = rt_rs rt"
  by (simp_all add: set_threads_def)

text \<open>
  C9. For every requested thread count \<open>n\<close>, also zero or negative, and every height
  \<open>H \<ge> 1\<close>: after \<open>set_threads n\<close> the renderer uses \<open>max 1 n\<close> threads, which is not zero,
  so the division for the rows per thread does not divide by zero. Thread \<open>t < T - 1\<close>
  gets the rows from \<open>t \<lfloor>H/T\<rfloor>\<close> up to \<open>(t + 1) \<lfloor>H/T\<rfloor>\<close>, the last thread those from
  \<open>(T - 1) \<lfloor>H/T\<rfloor>\<close> up to \<open>H\<close>, and the blocks one after the other are the rows
  \<open>0, \<dots>, H - 1\<close>, each once. The stores of all threads go to the positions \<open>(j, i)\<close> with
  \<open>j < H\<close> and \<open>i < W\<close>, each position exactly once.
\<close>

theorem blocos_particionam_linhas:
  assumes "1 \<le> cam_altura (rt_camera rt)"
  shows "let rt' = set_threads rt n;
             T = nat (rt_num_threads rt');
             H = nat (cam_altura (rt_camera rt'));
             W = nat (cam_largura (rt_camera rt'))
         in rt_num_threads rt' = max 1 n
          \<and> rt_num_threads rt' \<noteq> 0
          \<and> renderizar rt' \<noteq> Inl DivisaoPorZero
          \<and> length (blocos H T) = T
          \<and> (\<forall>t < T - 1. blocos H T ! t = (t * (H div T), (t + 1) * (H div T)))
          \<and> blocos H T ! (T - 1) = ((T - 1) * (H div T), H)
          \<and> linhas_visitadas H T = [0..<H]
          \<and> posicoes (eventos_render rt') = List.product [0..<H] [0..<W]
          \<and> distinct (posicoes (eventos_render rt'))
          \<and> set (posicoes (eventos_render rt')) = {0..<H} \<times> {0..<W}"
proof -
  define rt' where "rt' = set_threads rt n"
  define T where "T = nat (rt_num_threads rt')"
  define H where "H = nat (cam_altura (rt_camera rt'))"
  define W where "W = nat (cam_largura (rt_camera rt'))"
  have n: "rt_num_threads rt' = max 1 n"
    by (simp add: rt'_def set_threads_campos)
  then have ge: "1 \<le> rt_num_threads rt'"
    by simp
  then have T1: "1 \<le> T"
    by (simp add: T_def)
  have nz: "rt_num_threads rt' \<noteq> 0"
    using ge by simp
  have r: "renderizar rt' \<noteq> Inl DivisaoPorZero"
    using nz by (simp add: renderizar_def)
  have len: "length (blocos H T) = T"
    by (simp add: blocos_def Let_def)
  have mid: "\<forall>t < T - 1. blocos H T ! t = (t * (H div T), (t + 1) * (H div T))"
    by (auto simp: blocos_def Let_def)
  have lst: "blocos H T ! (T - 1) = ((T - 1) * (H div T), H)"
    using T1 by (simp add: blocos_def Let_def)
  have lv: "linhas_visitadas H T = [0..<H]"
    using T1 by (rule linhas_visitadas_todas)
  have pos: "posicoes (eventos_render rt') = List.product [0..<H] [0..<W]"
    unfolding H_def W_def using ge by (rule posicoes_com_threads)
  have d: "distinct (posicoes (eventos_render rt'))"
    unfolding pos by (simp add: distinct_product)
  have s: "set (posicoes (eventos_render rt')) = {0..<H} \<times> {0..<W}"
    unfolding pos by simp
  show ?thesis
    unfolding Let_def rt'_def [symmetric] T_def [symmetric] H_def [symmetric] W_def [symmetric]
    using n nz r len mid lst lv pos d s by blast
qed

text \<open>Seven rows of four pixels, for the requests of zero and of three threads.\<close>

theorem blocos_particionam_linhas_witness:
  "(1::int) \<le> cam_altura (rt_camera (set_resolucao (RayTracer_novo 10 0.1) 4 7))
   \<and> rt_num_threads (set_threads (set_resolucao (RayTracer_novo 10 0.1) 4 7) 0) = 1
   \<and> rt_num_threads (set_threads (set_resolucao (RayTracer_novo 10 0.1) 4 7) 3) = 3
   \<and> blocos 7 3 = [(0, 2), (2, 4), (4, 7)]
   \<and> linhas_visitadas 7 3 = [0, 1, 2, 3, 4, 5, 6]
   \<and> distinct (posicoes (eventos_render
        (set_threads (set_resolucao (RayTracer_novo 10 0.1) 4 7) 3)))"
proof -
  let ?rt = "set_resolucao (RayTracer_novo 10 0.1) 4 7"
  have h: "(1::int) \<le> cam_altura (rt_camera ?rt)"
    by (simp add: set_resolucao_def)
  have a: "rt_num_threads (set_threads ?rt 0) = 1"
    using blocos_particionam_linhas [OF h, of 0] by (simp add: Let_def)
  have b: "rt_num_threads (set_threads ?rt 3) = 3"
    using blocos_particionam_linhas [OF h, of 3] by (simp add: Let_def)
  have c: "blocos 7 3 = [(0, 2), (2, 4), (4, 7)]"
    by code_simp
  have d: "linhas_visitadas 7 3 = [0, 1, 2, 3, 4, 5, 6]"
    by code_simp
  have e: "distinct (posicoes (eventos_render (set_threads ?rt 3)))"
    using blocos_particionam_linhas [OF h, of 3] unfolding Let_def by blast
  show ?thesis
    using h a b c d e by blast
qed

lemma laco_raio_threads:
  "laco_raio (rt\<lparr>rt_num_threads := T\<rparr>) I i e res = laco_raio rt I i e res"
proof (induction rt I i e res rule: laco_raio.induct)
  case (1 rt integrador i estado resultado)
  show ?case
  proof (cases "i < max_passos \<and> \<not> est_r estado < rt_rs rt * tolerancia_horizonte
      \<and> \<not> (\<bar>est_theta estado - pi / 2\<bar> < 0.01 \<and> no_disco (rt_disco rt) (est_r estado))
      \<and> \<not> est_r estado > cam_r_observador (rt_camera rt) * 2")
    case True
    have "laco_raio (rt\<lparr>rt_num_threads := T\<rparr>)
            (set_passo integrador (passo_inicial * sqrt (est_r estado / rt_rs rt))) (i + 1)
            (corrige_theta (passo_rk4
               (set_passo integrador (passo_inicial * sqrt (est_r estado / rt_rs rt))) estado))
            (resultado\<lparr>res_passos := i\<rparr>)
        = laco_raio rt
            (set_passo integrador (passo_inicial * sqrt (est_r estado / rt_rs rt))) (i + 1)
            (corrige_theta (passo_rk4
               (set_passo integrador (passo_inicial * sqrt (est_r estado / rt_rs rt))) estado))
            (resultado\<lparr>res_passos := i\<rparr>)"
      using True by (intro "1.IH" [OF _ refl _ refl refl _ _ refl refl refl]) simp_all
    then show ?thesis
      by (subst laco_raio.simps, subst (2) laco_raio.simps) (simp add: Let_def)
  next
    case False
    then show ?thesis
      by (subst laco_raio.simps, subst (2) laco_raio.simps) (auto simp: Let_def)
  qed
qed

lemma tracar_raio_threads: "tracar_raio (set_threads rt n) = tracar_raio rt"
  by (rule ext)+ (simp add: tracar_raio_def set_threads_def laco_raio_threads estado_inicial_def)

lemma cor_do_pixel_threads: "cor_do_pixel (set_threads rt n) = cor_do_pixel rt"
  by (rule ext)+ (simp add: cor_do_pixel_def tracar_raio_threads set_threads_campos)

lemma set_posicoes: "set (posicoes es) = {(j, i). \<exists>p. Escreve j i p \<in> set es}"
  by (induction es rule: posicoes.induct) auto

lemma aplica_evento_forma:
  assumes "length (ren_imagem s) = H" and "\<forall>j<H. length (ren_imagem s ! j) = W"
  shows "length (ren_imagem (aplica_evento e s)) = H"
    and "\<forall>j<H. length (ren_imagem (aplica_evento e s) ! j) = W"
proof -
  show "length (ren_imagem (aplica_evento e s)) = H"
    using assms(1) by (cases e) simp_all
  show "\<forall>j<H. length (ren_imagem (aplica_evento e s) ! j) = W"
  proof (intro allI impI)
    fix j
    assume j: "j < H"
    show "length (ren_imagem (aplica_evento e s) ! j) = W"
    proof (cases e)
      case (Escreve j' i' p)
      with assms j show ?thesis
        by (cases "j' = j") simp_all
    next
      case LinhaProcessada
      with assms j show ?thesis by simp
    qed
  qed
qed

lemma aplica_evento_pixel:
  assumes "length (ren_imagem s) = H" and "\<forall>j<H. length (ren_imagem s ! j) = W"
    and "j < H" and "i < W"
  shows "ren_imagem (aplica_evento e s) ! j ! i
     = (case e of Escreve j' i' p \<Rightarrow> if j' = j \<and> i' = i then p else ren_imagem s ! j ! i
        | LinhaProcessada \<Rightarrow> ren_imagem s ! j ! i)"
proof (cases e)
  case (Escreve j' i' p)
  show ?thesis
  proof (cases "j' = j")
    case True
    with assms Escreve show ?thesis
      by (simp add: nth_list_update)
  next
    case False
    with Escreve show ?thesis
      by simp
  qed
next
  case LinhaProcessada
  then show ?thesis by simp
qed

lemma executa_Cons: "executa (e # es) s = executa es (aplica_evento e s)"
  by (simp add: executa_def)

lemma executa_forma:
  assumes "length (ren_imagem s) = H" and "\<forall>j<H. length (ren_imagem s ! j) = W"
  shows "length (ren_imagem (executa es s)) = H"
    and "\<forall>j<H. length (ren_imagem (executa es s) ! j) = W"
  using assms
proof (induction es arbitrary: s)
  case Nil
  {
    case 1
    then show ?case by (simp add: executa_def)
  next
    case 2
    then show ?case by (simp add: executa_def)
  }
next
  case (Cons e es)
  {
    case 1
    show ?case
      unfolding executa_Cons
      by (rule Cons.IH(1) [OF aplica_evento_forma [OF 1]])
  next
    case 2
    show ?case
      unfolding executa_Cons
      by (rule Cons.IH(2) [OF aplica_evento_forma [OF 2]])
  }
qed

lemma executa_pixels:
  assumes "\<forall>j i p. Escreve j i p \<in> set es \<longrightarrow> p = f j i"
    and "length (ren_imagem s) = H" and "\<forall>j<H. length (ren_imagem s ! j) = W"
    and "j < H" and "i < W"
  shows "ren_imagem (executa es s) ! j ! i
           = (if (j, i) \<in> set (posicoes es) then f j i else ren_imagem s ! j ! i)"
  using assms(1,2,3)
proof (induction es arbitrary: s)
  case Nil
  then show ?case by (simp add: executa_def)
next
  case (Cons e es)
  let ?s = "aplica_evento e s"
  have forma: "length (ren_imagem ?s) = H" "\<forall>j<H. length (ren_imagem ?s ! j) = W"
    using aplica_evento_forma [OF Cons.prems(2,3)] by simp_all
  have f: "\<forall>j i p. Escreve j i p \<in> set es \<longrightarrow> p = f j i"
    using Cons.prems(1) by simp
  have a: "ren_imagem (executa es ?s) ! j ! i
        = (if (j, i) \<in> set (posicoes es) then f j i else ren_imagem ?s ! j ! i)"
    by (rule Cons.IH [OF f forma])
  have b: "ren_imagem ?s ! j ! i
     = (case e of Escreve j' i' p \<Rightarrow> if j' = j \<and> i' = i then p else ren_imagem s ! j ! i
        | LinhaProcessada \<Rightarrow> ren_imagem s ! j ! i)"
    using Cons.prems(2,3) assms(4,5) by (rule aplica_evento_pixel)
  show ?case
  proof (cases e)
    case (Escreve j' i' p)
    then have "p = f j' i'"
      using Cons.prems(1) by simp
    with Escreve show ?thesis
      unfolding executa_Cons a b by auto
  next
    case LinhaProcessada
    then show ?thesis
      unfolding executa_Cons a b by simp
  qed
qed

lemma processar_bloco_cores:
  "Escreve j i p \<in> set (processar_bloco rt a b) \<Longrightarrow> p = cor_do_pixel rt j i"
  by (auto simp: processar_bloco_def split: if_splits)

lemma eventos_render_cores:
  "Escreve j i p \<in> set (eventos_render rt) \<Longrightarrow> p = cor_do_pixel rt j i"
  by (auto simp: eventos_render_def dest: processar_bloco_cores)

lemma escalonamento_imagem:
  assumes esc: "escalonamento (set_threads rt n) es"
  shows "ren_imagem (executa es (estado_render_inicial (set_threads rt n))) = imagem_dos_raios rt"
proof -
  define rt' where "rt' = set_threads rt n"
  define H where "H = nat (cam_altura (rt_camera rt))"
  define W where "W = nat (cam_largura (rt_camera rt))"
  let ?s = "estado_render_inicial rt'"
  have cam: "rt_camera rt' = rt_camera rt"
    by (simp add: rt'_def set_threads_campos)
  have ge: "1 \<le> rt_num_threads rt'"
    by (simp add: rt'_def set_threads_campos)
  have sets: "set es = set (eventos_render rt')"
    using esc unfolding escalonamento_def rt'_def by (rule mset_eq_setD)
  have cores: "\<forall>j i p. Escreve j i p \<in> set es \<longrightarrow> p = cor_do_pixel rt j i"
    unfolding sets using eventos_render_cores [of _ _ _ rt']
    by (simp add: rt'_def cor_do_pixel_threads)
  have pos: "set (posicoes es) = {0..<H} \<times> {0..<W}"
  proof -
    have "set (posicoes es) = set (posicoes (eventos_render rt'))"
      by (simp add: set_posicoes sets)
    also have "\<dots> = {0..<H} \<times> {0..<W}"
      using posicoes_com_threads [OF ge] by (simp add: cam H_def W_def)
    finally show ?thesis .
  qed
  have s1: "length (ren_imagem ?s) = H"
    by (simp add: estado_render_inicial_def cam H_def)
  have s2: "\<forall>j<H. length (ren_imagem ?s ! j) = W"
    by (simp add: estado_render_inicial_def cam H_def W_def)
  note F = executa_forma [OF s1 s2, of es]
  note E = executa_pixels [OF cores s1 s2]
  have "ren_imagem (executa es ?s) = imagem_dos_raios rt"
  proof (rule nth_equalityI)
    show "length (ren_imagem (executa es ?s)) = length (imagem_dos_raios rt)"
      using F(1) by (simp add: imagem_dos_raios_def H_def)
  next
    fix j
    assume "j < length (ren_imagem (executa es ?s))"
    then have j: "j < H"
      using F(1) by simp
    show "ren_imagem (executa es ?s) ! j = imagem_dos_raios rt ! j"
    proof (rule nth_equalityI)
      show "length (ren_imagem (executa es ?s) ! j) = length (imagem_dos_raios rt ! j)"
        using F(2) j by (simp add: imagem_dos_raios_def H_def W_def)
    next
      fix i
      assume "i < length (ren_imagem (executa es ?s) ! j)"
      then have i: "i < W"
        using F(2) j by simp
      have "ren_imagem (executa es ?s) ! j ! i = cor_do_pixel rt j i"
        using E [OF j i] j i pos by simp
      then show "ren_imagem (executa es ?s) ! j ! i = imagem_dos_raios rt ! j ! i"
        using j i by (simp add: imagem_dos_raios_def H_def W_def)
    qed
  qed
  then show ?thesis
    by (simp add: rt'_def)
qed

text \<open>
  C6. For one configuration with non-negative dimensions and any two requested thread
  counts, every schedule of the threads' events leaves the same raster, which is also
  what \<open>renderizar\<close> returns for either count: the raster whose pixel in row \<open>j\<close> and
  column \<open>i\<close> is the colour of the ray traced for \<open>(i, j)\<close> alone. That raster is stated
  for the configuration without reference to its thread count.
\<close>

theorem renderizar_determinista:
  assumes "0 \<le> cam_largura (rt_camera rt)" and "0 \<le> cam_altura (rt_camera rt)"
    and "escalonamento (set_threads rt n1) es1" and "escalonamento (set_threads rt n2) es2"
  shows "ren_imagem (executa es1 (estado_render_inicial (set_threads rt n1)))
           = ren_imagem (executa es2 (estado_render_inicial (set_threads rt n2)))
       \<and> ren_imagem (executa es1 (estado_render_inicial (set_threads rt n1)))
           = imagem_dos_raios rt
       \<and> renderizar (set_threads rt n1) = Inr (imagem_dos_raios rt)
       \<and> renderizar (set_threads rt n2) = Inr (imagem_dos_raios rt)
       \<and> (\<forall>j < nat (cam_altura (rt_camera rt)). \<forall>i < nat (cam_largura (rt_camera rt)).
            imagem_dos_raios rt ! j ! i = cor_do_pixel rt j i)"
proof -
  have r: "renderizar (set_threads rt n) = Inr (imagem_dos_raios rt)" for n
  proof -
    have "escalonamento (set_threads rt n) (eventos_render (set_threads rt n))"
      by (simp add: escalonamento_def)
    then have "ren_imagem (executa (eventos_render (set_threads rt n))
        (estado_render_inicial (set_threads rt n))) = imagem_dos_raios rt"
      by (rule escalonamento_imagem)
    then show ?thesis
      using assms(1,2) by (simp add: renderizar_def set_threads_campos)
  qed
  have p: "\<forall>j < nat (cam_altura (rt_camera rt)). \<forall>i < nat (cam_largura (rt_camera rt)).
            imagem_dos_raios rt ! j ! i = cor_do_pixel rt j i"
    by (simp add: imagem_dos_raios_def)
  show ?thesis
    using escalonamento_imagem [OF assms(3)] escalonamento_imagem [OF assms(4)] r [of n1]
      r [of n2] p
    by (simp only: simp_thms)
qed

text \<open>
  Two rows of one pixel: one thread in program order against two threads with all their
  events in the reverse order.
\<close>

theorem renderizar_determinista_witness:
  "0 \<le> cam_largura (rt_camera (set_resolucao (RayTracer_novo 10 0.1) 1 2))
   \<and> 0 \<le> cam_altura (rt_camera (set_resolucao (RayTracer_novo 10 0.1) 1 2))
   \<and> escalonamento (set_threads (set_resolucao (RayTracer_novo 10 0.1) 1 2) 1)
         (eventos_render (set_threads (set_resolucao (RayTracer_novo 10 0.1) 1 2) 1))
   \<and> escalonamento (set_threads (set_resolucao (RayTracer_novo 10 0.1) 1 2) 2)
         (rev (eventos_render (set_threads (set_resolucao (RayTracer_novo 10 0.1) 1 2) 2)))
   \<and> ren_imagem (executa
           (eventos_render (set_threads (set_resolucao (RayTracer_novo 10 0.1) 1 2) 1))
           (estado_render_inicial (set_threads (set_resolucao (RayTracer_novo 10 0.1) 1 2) 1)))
       = ren_imagem (executa
           (rev (eventos_render (set_threads (set_resolucao (RayTracer_novo 10 0.1) 1 2) 2)))
           (estado_render_inicial (set_threads (set_resolucao (RayTracer_novo 10 0.1) 1 2) 2)))"
proof -
  let ?rt = "set_resolucao (RayTracer_novo 10 0.1) 1 2"
  have w: "0 \<le> cam_largura (rt_camera ?rt)" and h: "0 \<le> cam_altura (rt_camera ?rt)"
    by (simp_all add: set_resolucao_def)
  have e1: "escalonamento (set_threads ?rt 1) (eventos_render (set_threads ?rt 1))"
    by (simp add: escalonamento_def)
  have e2: "escalonamento (set_threads ?rt 2) (rev (eventos_render (set_threads ?rt 2)))"
    by (simp add: escalonamento_def)
  have "ren_imagem (executa (eventos_render (set_threads ?rt 1))
           (estado_render_inicial (set_threads ?rt 1)))
       = ren_imagem (executa (rev (eventos_render (set_threads ?rt 2)))
           (estado_render_inicial (set_threads ?rt 2)))"
    using renderizar_determinista [OF w h e1 e2] by (rule conjunct1)
  with w h e1 e2 show ?thesis
    by (simp only: simp_thms)
qed

section \<open>The initial photon state\<close>

lemma estado_inicial_campos:
  "est_r (estado_inicial rt a b) = cam_r_observador (rt_camera rt)"
  "est_theta (estado_inicial rt a b) = cam_theta_observador (rt_camera rt)"
  "est_u_t (estado_inicial rt a b) = 1 / (1 - rt_rs rt / cam_r_observador (rt_camera rt))"
  "est_u_theta (estado_inicial rt a b) = b / cam_r_observador (rt_camera rt)"
  "est_u_phi (estado_inicial rt a b)
     = a / (cam_r_observador (rt_camera rt) * sin (cam_theta_observador (rt_camera rt)))"
  "est_u_r (estado_inicial rt a b) = - sqrt (max 0 (u_r_sq rt a b))"
  by (simp_all add: estado_inicial_def u_r_sq_def Let_def)

lemma norma_inicial:
  assumes eq: "rt_rs rt = met_rs (rt_metrica rt)"
    and rs: "0 < rt_rs rt"
    and r0: "rt_rs rt < cam_r_observador (rt_camera rt)"
  shows "norma_quadrivelocidade (rt_metrica rt) (estado_inicial rt a b)
     = (max 0 (u_r_sq rt a b) - u_r_sq rt a b)
         / (1 - rt_rs rt / cam_r_observador (rt_camera rt))"
proof -
  define R where "R = cam_r_observador (rt_camera rt)"
  define f where "f = 1 - rt_rs rt / R"
  define ut where "ut = b / R"
  define up where "up = a / (R * sin (cam_theta_observador (rt_camera rt)))"
  define s where "s = sin (cam_theta_observador (rt_camera rt))"
  define U where "U = u_r_sq rt a b"
  have Rpos: "0 < R"
    using rs r0 by (simp add: R_def)
  have fpos: "0 < f"
    using rs r0 Rpos by (simp add: f_def R_def)
  have Ueq: "U = f * (f * (1 / f) * (1 / f) - R * R * ut * ut - R * R * s * s * up * up)"
    by (simp add: U_def u_r_sq_def Let_def f_def R_def ut_def up_def s_def)
  have gtt: "g_tt (rt_metrica rt) R = - f"
    using r0 by (simp add: g_tt_def eq [symmetric] f_def R_def)
  have grr: "g_rr (rt_metrica rt) R = 1 / f"
    using r0 by (simp add: g_rr_def eq [symmetric] f_def R_def)
  have sq: "(- sqrt (max 0 U)) * (- sqrt (max 0 U)) = max 0 U"
    by simp
  have "norma_quadrivelocidade (rt_metrica rt) (estado_inicial rt a b)
      = - f * (1 / f) * (1 / f) + (1 / f) * ((- sqrt (max 0 U)) * (- sqrt (max 0 U)))
        + R * R * ut * ut + R * R * s * s * up * up"
    unfolding norma_quadrivelocidade_def estado_inicial_campos
      R_def [symmetric] f_def [symmetric] U_def [symmetric] gtt grr
    by (simp add: g_theta_theta_def g_phi_phi_def ut_def up_def s_def R_def)
  also have "\<dots> = - f * (1 / f) * (1 / f) + (1 / f) * max 0 U
        + R * R * ut * ut + R * R * s * s * up * up"
    by (simp only: sq)
  also have "\<dots> = (max 0 U - U) / f"
    unfolding Ueq using fpos by (simp add: field_simps)
  finally show ?thesis
    by (simp add: U_def f_def R_def)
qed

lemma rs_dez_massas:
  "rt_rs (RayTracer_novo 10 0.1) = met_rs (rt_metrica (RayTracer_novo 10 0.1))"
  "1 < rt_rs (RayTracer_novo 10 0.1)"
  "cam_r_observador (rt_camera (RayTracer_novo 10 0.1)) = 100 * rt_rs (RayTracer_novo 10 0.1)"
  "cam_theta_observador (rt_camera (RayTracer_novo 10 0.1)) = pi / 3"
  by (simp_all add: RayTracer_novo_def MetricaSchwarzschild_novo_def raio_schwarzschild_def
      Camera_padrao_def Let_def G_def C2_def C_def MASSA_SOL_def)

lemma cor_do_pixel_impacto:
  "cor_do_pixel rt j i = res_cor (tracar_raio rt (alfa_do_pixel rt i) (beta_do_pixel rt j))"
  by (simp add: cor_do_pixel_def alfa_do_pixel_def beta_do_pixel_def Let_def)

lemma camera_dez_massas:
  "cam_largura (rt_camera (RayTracer_novo 10 0.1)) = 800"
  "cam_altura (rt_camera (RayTracer_novo 10 0.1)) = 600"
  "cam_fov_horizontal (rt_camera (RayTracer_novo 10 0.1)) = pi / 4"
  "cam_fov_vertical (rt_camera (RayTracer_novo 10 0.1)) = pi / 4"
  by (simp_all add: RayTracer_novo_def Camera_padrao_def Let_def)

lemma rs_dez_massas_grande: "3200 < rt_rs (RayTracer_novo 10 0.1)"
  by (simp add: RayTracer_novo_def MetricaSchwarzschild_novo_def raio_schwarzschild_def
      Let_def G_def C2_def C_def MASSA_SOL_def)

lemma impacto_pixel_400_0:
  "alfa_do_pixel (RayTracer_novo 10 0.1) 400 = 0"
  "beta_do_pixel (RayTracer_novo 10 0.1) 0
     = - (pi / 8) * cam_r_observador (rt_camera (RayTracer_novo 10 0.1))"
  by (simp_all add: alfa_do_pixel_def beta_do_pixel_def camera_dez_massas Let_def)

lemma u_r_sq_dez_massas:
  "u_r_sq (RayTracer_novo 10 0.1) a b = 99 / 100 * (100 / 99 - b * b - a * a)"
proof -
  let ?rt = "RayTracer_novo 10 0.1"
  define rs where "rs = rt_rs ?rt"
  define R where "R = cam_r_observador (rt_camera ?rt)"
  have rs1: "1 < rs"
    unfolding rs_def by (rule rs_dez_massas(2))
  have R: "R = 100 * rs"
    unfolding R_def rs_def by (rule rs_dez_massas(3))
  have f: "1 - rs / R = 99 / 100"
    using rs1 R by simp
  have Rne: "R \<noteq> 0"
    using rs1 R by simp
  have s: "sin (pi / 3) \<noteq> 0"
    by (simp add: sin_60)
  show ?thesis
    unfolding u_r_sq_def Let_def rs_dez_massas(4) R_def [symmetric] rs_def [symmetric] f
    using Rne s by (simp add: field_simps)
qed

lemma clamp_fora_do_centro:
  assumes "i < 800" and "j < 600" and "(i, j) \<noteq> (400, 300)"
  shows "u_r_sq (RayTracer_novo 10 0.1) (alfa_do_pixel (RayTracer_novo 10 0.1) i)
           (beta_do_pixel (RayTracer_novo 10 0.1) j) < 0"
proof -
  let ?rt = "RayTracer_novo 10 0.1"
  define R where "R = cam_r_observador (rt_camera ?rt)"
  define a where "a = alfa_do_pixel ?rt i"
  define b where "b = beta_do_pixel ?rt j"
  define k where "k = pi * R / 3200"
  have R: "320000 < R"
    unfolding R_def rs_dez_massas(3) using rs_dez_massas_grande by simp
  have k: "200 < k"
  proof -
    have "2 * 320000 < pi * R"
      using pi_ge_two R by (intro mult_le_less_imp_less) simp_all
    then show ?thesis
      by (simp add: k_def)
  qed
  have k2: "40000 < k * k"
  proof -
    have "200 * 200 < k * k"
      using k by (intro mult_strict_mono) simp_all
    then show ?thesis by simp
  qed
  have a: "a = (real i - 400) * k"
    by (simp add: a_def alfa_do_pixel_def camera_dez_massas Let_def R_def k_def)
  have b: "b = (real j - 300) * (4 / 3) * k"
    by (simp add: b_def beta_do_pixel_def camera_dez_massas Let_def R_def k_def)
  have sq: "1 \<le> x * x" if "x \<noteq> 0" for x :: int
  proof -
    have "1 \<le> \<bar>x\<bar>" using that by simp
    then have "1 * 1 \<le> \<bar>x\<bar> * \<bar>x\<bar>"
      by (intro mult_mono) simp_all
    then show ?thesis
      by (simp add: abs_mult_self_eq)
  qed
  have "i \<noteq> 400 \<or> j \<noteq> 300"
    using assms(3) by simp
  then have "40000 < a * a + b * b"
  proof
    assume "i \<noteq> 400"
    then have "1 \<le> (int i - 400) * (int i - 400)"
      by (intro sq) simp
    then have "1 \<le> (real i - 400) * (real i - 400)"
      by (metis (mono_tags, opaque_lifting) of_int_1 of_int_le_iff of_int_mult of_int_diff
          of_int_of_nat_eq of_int_numeral)
    then have "1 * (k * k) \<le> (real i - 400) * (real i - 400) * (k * k)"
      by (intro mult_right_mono) simp_all
    then have "k * k \<le> a * a"
      by (simp add: a mult_ac)
    moreover have "0 \<le> b * b" by simp
    ultimately show ?thesis using k2 by linarith
  next
    assume "j \<noteq> 300"
    then have "1 \<le> (int j - 300) * (int j - 300)"
      by (intro sq) simp
    then have "1 \<le> (real j - 300) * (real j - 300)"
      by (metis (mono_tags, opaque_lifting) of_int_1 of_int_le_iff of_int_mult of_int_diff
          of_int_of_nat_eq of_int_numeral)
    then have "1 * (k * k) \<le> (real j - 300) * (real j - 300) * (k * k)"
      by (intro mult_right_mono) simp_all
    also have "\<dots> \<le> (real j - 300) * (real j - 300) * (k * k) * (16 / 9)"
    proof -
      have "0 \<le> (real j - 300) * (real j - 300) * (k * k)"
        by (intro mult_nonneg_nonneg zero_le_square)
      then show ?thesis
        by linarith
    qed
    also have "\<dots> = b * b"
      unfolding b by (simp add: algebra_simps)
    finally have "k * k \<le> b * b"
      by simp
    moreover have "0 \<le> a * a" by simp
    ultimately show ?thesis using k2 by linarith
  qed
  then show ?thesis
    unfolding u_r_sq_dez_massas a_def [symmetric] b_def [symmetric] by simp
qed

text \<open>
  C3 does not hold of the code. For the tracer of ten solar masses with its default
  camera (\<open>r\<^sub>o\<^sub>b\<^sub>s = 100 r\<^sub>s\<close>, \<open>\<theta>\<^sub>o\<^sub>b\<^sub>s = \<pi>/3\<close>, 800 by 600 pixels, both fields of view \<open>\<pi>/4\<close>)
  and the pixel of column 400, row 0, for which \<^verbatim>\<open>renderizar\<close> passes \<open>\<alpha> = 0\<close> and
  \<open>\<beta> = -(\<pi>/8) r\<^sub>o\<^sub>b\<^sub>s\<close>: the observer is outside the horizon, the radial term is negative,
  the clamp puts \<open>u\<^sup>r = 0\<close>, and \<open>g\<^sub>\<mu>\<^sub>\<nu> u\<^sup>\<mu> u\<^sup>\<nu>\<close> exceeds half the sum of the magnitudes of its own
  terms. The initial state is not null, neither exactly nor within a relative \<open>10\<^sup>-\<^sup>1\<^sup>0\<close>,
  although the comment above the computation says that \<open>u\<^sup>r\<close> comes from
  \<open>g\<^sub>\<mu>\<^sub>\<nu> u\<^sup>\<mu> u\<^sup>\<nu> = 0\<close>. By \<open>clamp_fora_do_centro\<close> the same happens at every pixel of this
  camera but the central one: the impact parameters carry a factor \<open>r\<^sub>o\<^sub>b\<^sub>s\<close> in metres, the
  angular terms \<open>r\<^sup>2 (u\<^sup>\<theta>)\<^sup>2 = \<beta>\<^sup>2\<close> and \<open>r\<^sup>2 sin\<^sup>2\<theta> (u\<^sup>\<phi>)\<^sup>2 = \<alpha>\<^sup>2\<close> are of the order of \<open>r\<^sub>o\<^sub>b\<^sub>s\<^sup>2\<close>,
  and the radial term is \<open>0.99 (100/99 - \<beta>\<^sup>2 - \<alpha>\<^sup>2)\<close>.
\<close>

theorem condicao_nula_pixel_400_0:
  "rt_rs (RayTracer_novo 10 0.1) < cam_r_observador (rt_camera (RayTracer_novo 10 0.1))
   \<and> u_r_sq (RayTracer_novo 10 0.1) (alfa_do_pixel (RayTracer_novo 10 0.1) 400)
        (beta_do_pixel (RayTracer_novo 10 0.1) 0) < 0
   \<and> est_u_r (estado_inicial (RayTracer_novo 10 0.1)
        (alfa_do_pixel (RayTracer_novo 10 0.1) 400)
        (beta_do_pixel (RayTracer_novo 10 0.1) 0)) = 0
   \<and> norma_quadrivelocidade (rt_metrica (RayTracer_novo 10 0.1))
        (estado_inicial (RayTracer_novo 10 0.1)
           (alfa_do_pixel (RayTracer_novo 10 0.1) 400)
           (beta_do_pixel (RayTracer_novo 10 0.1) 0))
       > escala_quadrivelocidade (rt_metrica (RayTracer_novo 10 0.1))
           (estado_inicial (RayTracer_novo 10 0.1)
              (alfa_do_pixel (RayTracer_novo 10 0.1) 400)
              (beta_do_pixel (RayTracer_novo 10 0.1) 0)) / 2"
proof -
  let ?rt = "RayTracer_novo 10 0.1"
  define rs where "rs = rt_rs ?rt"
  define R where "R = cam_r_observador (rt_camera ?rt)"
  define b where "b = - (pi / 8) * R"
  have rs1: "1 < rs"
    unfolding rs_def by (rule rs_dez_massas(2))
  have R: "R = 100 * rs"
    unfolding R_def rs_def by (rule rs_dez_massas(3))
  have rsR: "rs < R"
    using rs1 R by simp
  have f: "1 - rs / R = 99 / 100"
    using rs1 R by simp
  have b2: "b * b = (pi * pi / 64) * (R * R)"
    by (simp add: b_def)
  have pp: "4 \<le> pi * pi"
    using mult_mono [OF pi_ge_two pi_ge_two] by simp
  have RR: "10000 < R * R"
  proof -
    have "100 < R" using rs1 R by simp
    then have "100 * 100 < R * R"
      by (intro mult_strict_mono) simp_all
    then show ?thesis by simp
  qed
  have bb: "625 < b * b"
  proof -
    have "4 / 64 * (R * R) \<le> pi * pi / 64 * (R * R)"
      using pp by (intro mult_right_mono divide_right_mono) simp_all
    with RR show ?thesis
      unfolding b2 by simp
  qed
  have Rne: "R \<noteq> 0"
    using rs1 R by simp
  have U: "u_r_sq ?rt 0 b = 99 / 100 * (100 / 99 - b * b)"
    unfolding u_r_sq_def Let_def R_def [symmetric] rs_def [symmetric] f
    using Rne by simp
  have Uneg: "u_r_sq ?rt 0 b < 0"
    unfolding U using bb by simp
  have ur: "est_u_r (estado_inicial ?rt 0 b) = 0"
    using Uneg by (simp add: estado_inicial_campos)
  have m: "max 0 (99 / 100 * (100 / 99 - b * b)) = 0"
    using Uneg unfolding U by simp
  have rs0: "0 < rt_rs ?rt"
    using rs1 by (simp add: rs_def)
  have R0: "rt_rs ?rt < cam_r_observador (rt_camera ?rt)"
    using rsR by (simp add: rs_def R_def)
  have "norma_quadrivelocidade (rt_metrica ?rt) (estado_inicial ?rt 0 b)
      = (max 0 (u_r_sq ?rt 0 b) - u_r_sq ?rt 0 b) / (1 - rs / R)"
    unfolding rs_def R_def by (rule norma_inicial [OF rs_dez_massas(1) rs0 R0])
  also have "\<dots> = (0 - 99 / 100 * (100 / 99 - b * b)) / (99 / 100)"
    by (simp only: U m f)
  also have "\<dots> = b * b - 100 / 99"
    by (simp add: field_simps)
  finally have N: "norma_quadrivelocidade (rt_metrica ?rt) (estado_inicial ?rt 0 b)
      = b * b - 100 / 99" .
  have gtt: "g_tt (rt_metrica ?rt) R = - (99 / 100)"
    using rsR f by (simp add: g_tt_def rs_dez_massas(1) [symmetric] rs_def [symmetric])
  have E: "escala_quadrivelocidade (rt_metrica ?rt) (estado_inicial ?rt 0 b) = 100 / 99 + b * b"
    unfolding escala_quadrivelocidade_def ur estado_inicial_campos
      R_def [symmetric] rs_def [symmetric] f gtt
    using Rne Uneg by (simp add: g_theta_theta_def)
  have "escala_quadrivelocidade (rt_metrica ?rt) (estado_inicial ?rt 0 b) / 2
      < norma_quadrivelocidade (rt_metrica ?rt) (estado_inicial ?rt 0 b)"
    unfolding N E using bb by simp
  then show ?thesis
    unfolding impacto_pixel_400_0 b_def [symmetric] R_def [symmetric] rs_def [symmetric]
    using rsR Uneg ur by simp
qed

section \<open>The termination events of a ray\<close>

lemma passo_rk4_so_metrica_e_passo:
  "int_metrica I = m \<Longrightarrow>
   passo_rk4 (set_passo I h) e = passo_rk4 (IntegradorGeodesico_novo m h) e"
  by (simp add: passo_rk4_def derivs_def set_passo_def IntegradorGeodesico_novo_def)

lemma laco_raio_esgotado:
  "\<not> i < max_passos \<Longrightarrow>
   laco_raio rt I i e res = res\<lparr>res_destino := ERRO, res_cor := \<lparr>px_r = 1, px_g = 0, px_b = 1\<rparr>\<rparr>"
  by (subst laco_raio.simps) simp

lemma laco_raio_sem_evento:
  assumes "i < max_passos" and "\<not> evento rt e" and "int_metrica I = rt_metrica rt"
  shows "laco_raio rt I i e res
     = laco_raio rt (set_passo I (passo_inicial * sqrt (est_r e / rt_rs rt))) (i + 1)
         (avanca rt e) (res\<lparr>res_passos := i\<rparr>)"
proof -
  have a: "\<not> est_r e < rt_rs rt * tolerancia_horizonte"
    using assms(2) by (simp add: evento_def no_horizonte_def tolerancia_horizonte_def mult.commute)
  have b: "\<not> (\<bar>est_theta e - pi / 2\<bar> < 0.01 \<and> no_disco (rt_disco rt) (est_r e))"
    using assms(2) by (simp add: evento_def atinge_disco_def no_disco_def)
  have c: "\<not> est_r e > cam_r_observador (rt_camera rt) * 2"
    using assms(2) by (simp add: evento_def escapou_def mult.commute)
  have d: "avanca rt e = corrige_theta (passo_rk4
      (set_passo I (passo_inicial * sqrt (est_r e / rt_rs rt))) e)"
    unfolding avanca_def using assms(3) by (simp only: passo_rk4_so_metrica_e_passo)
  show ?thesis
    unfolding d by (subst laco_raio.simps) (simp only: assms(1) a b c if_True if_False Let_def)
qed

lemma laco_raio_horizonte:
  assumes "i < max_passos" and "est_r e < rt_rs rt * tolerancia_horizonte"
  shows "laco_raio rt I i e res
     = res\<lparr>res_passos := i, res_destino := HORIZONTE, res_r_impacto := Some (est_r e),
           res_cor := \<lparr>px_r = 0, px_g = 0, px_b = 0\<rparr>\<rparr>"
  using assms by (subst laco_raio.simps) (simp add: Let_def)

lemma laco_raio_disco:
  assumes "i < max_passos" and "\<not> est_r e < rt_rs rt * tolerancia_horizonte"
    and "\<bar>est_theta e - pi / 2\<bar> < 0.01" and "no_disco (rt_disco rt) (est_r e)"
  shows "laco_raio rt I i e res
     = res\<lparr>res_passos := i, res_destino := DISCO, res_r_impacto := Some (est_r e),
           res_phi_impacto := Some (est_phi e), res_theta_impacto := Some (est_theta e),
           res_cor := \<lparr>px_r = cor_r (intensidade_observada (rt_disco rt) (est_r e) (est_phi e)),
                      px_g = cor_g (intensidade_observada (rt_disco rt) (est_r e) (est_phi e)),
                      px_b = cor_b (intensidade_observada (rt_disco rt) (est_r e) (est_phi e))\<rparr>\<rparr>"
  using assms by (subst laco_raio.simps) (simp add: Let_def)

lemma laco_raio_escape:
  assumes "i < max_passos" and "\<not> est_r e < rt_rs rt * tolerancia_horizonte"
    and "\<not> (\<bar>est_theta e - pi / 2\<bar> < 0.01 \<and> no_disco (rt_disco rt) (est_r e))"
    and "est_r e > cam_r_observador (rt_camera rt) * 2"
  shows "laco_raio rt I i e res
     = res\<lparr>res_passos := i, res_destino := INFINITO,
           res_cor := cor_fundo (est_theta e) (est_phi e)\<rparr>"
  using assms by (subst laco_raio.simps) (auto simp: Let_def usar_fundo_def)

lemma laco_raio_com_evento:
  assumes "i < max_passos" and "evento rt e"
  shows "res_cor (laco_raio rt I i e res) = cor_do_evento rt e"
    and "res_destino (laco_raio rt I i e res)
       = (if no_horizonte rt e then HORIZONTE else if atinge_disco rt e then DISCO else INFINITO)"
    and "res_passos (laco_raio rt I i e res) = i"
proof -
  have h: "est_r e < rt_rs rt * tolerancia_horizonte \<longleftrightarrow> no_horizonte rt e"
    by (simp add: no_horizonte_def tolerancia_horizonte_def mult.commute)
  have d: "\<bar>est_theta e - pi / 2\<bar> < 0.01 \<and> no_disco (rt_disco rt) (est_r e)
      \<longleftrightarrow> atinge_disco rt e"
    by (simp add: atinge_disco_def no_disco_def)
  have s: "est_r e > cam_r_observador (rt_camera rt) * 2 \<longleftrightarrow> escapou rt e"
    by (simp add: escapou_def mult.commute)
  consider (H) "no_horizonte rt e"
    | (D) "\<not> no_horizonte rt e" "atinge_disco rt e"
    | (E) "\<not> no_horizonte rt e" "\<not> atinge_disco rt e" "escapou rt e"
    using assms(2) by (auto simp: evento_def)
  then have "res_cor (laco_raio rt I i e res) = cor_do_evento rt e
    \<and> res_destino (laco_raio rt I i e res)
       = (if no_horizonte rt e then HORIZONTE else if atinge_disco rt e then DISCO else INFINITO)
    \<and> res_passos (laco_raio rt I i e res) = i"
  proof cases
    case H
    then have "est_r e < rt_rs rt * tolerancia_horizonte"
      using h by blast
    from laco_raio_horizonte [OF assms(1) this] H show ?thesis
      by (simp add: cor_do_evento_def)
  next
    case D
    have nh: "\<not> est_r e < rt_rs rt * tolerancia_horizonte"
      using D(1) h by blast
    have d1: "\<bar>est_theta e - pi / 2\<bar> < 0.01" and d2: "no_disco (rt_disco rt) (est_r e)"
      using D(2) d by blast+
    from laco_raio_disco [OF assms(1) nh d1 d2] D show ?thesis
      by (simp add: cor_do_evento_def Let_def)
  next
    case E
    have nh: "\<not> est_r e < rt_rs rt * tolerancia_horizonte"
      using E(1) h by blast
    have nd: "\<not> (\<bar>est_theta e - pi / 2\<bar> < 0.01 \<and> no_disco (rt_disco rt) (est_r e))"
      using E(2) d by blast
    have es: "est_r e > cam_r_observador (rt_camera rt) * 2"
      using E(3) s by blast
    from laco_raio_escape [OF assms(1) nh nd es] E show ?thesis
      by (simp add: cor_do_evento_def)
  qed
  then show "res_cor (laco_raio rt I i e res) = cor_do_evento rt e"
    and "res_destino (laco_raio rt I i e res)
       = (if no_horizonte rt e then HORIZONTE else if atinge_disco rt e then DISCO else INFINITO)"
    and "res_passos (laco_raio rt I i e res) = i"
    by blast+
qed

lemma laco_raio_k_passos:
  assumes "\<forall>j<k. \<not> evento rt ((avanca rt ^^ j) e)"
    and "i + int k \<le> max_passos" and "int_metrica I = rt_metrica rt"
  shows "\<exists>I' res'. int_metrica I' = rt_metrica rt
       \<and> laco_raio rt I i e res = laco_raio rt I' (i + int k) ((avanca rt ^^ k) e) res'"
  using assms
proof (induction k arbitrary: I i e res)
  case 0
  then show ?case by auto
next
  case (Suc k)
  let ?I = "set_passo I (passo_inicial * sqrt (est_r e / rt_rs rt))"
  have e0: "\<not> evento rt e"
    using Suc.prems(1) [rule_format, of 0] by simp
  have i: "i < max_passos"
    using Suc.prems(2) by simp
  have step: "laco_raio rt I i e res
      = laco_raio rt ?I (i + 1) (avanca rt e) (res\<lparr>res_passos := i\<rparr>)"
    using i e0 Suc.prems(3) by (rule laco_raio_sem_evento)
  have rest: "\<forall>j<k. \<not> evento rt ((avanca rt ^^ j) (avanca rt e))"
  proof (intro allI impI)
    fix j
    assume "j < k"
    then have "Suc j < Suc k"
      by simp
    then have "\<not> evento rt ((avanca rt ^^ Suc j) e)"
      using Suc.prems(1) by blast
    then show "\<not> evento rt ((avanca rt ^^ j) (avanca rt e))"
      by (simp add: funpow_swap1)
  qed
  have m: "int_metrica ?I = rt_metrica rt"
    using Suc.prems(3) by (simp add: set_passo_def)
  have b: "i + 1 + int k \<le> max_passos"
    using Suc.prems(2) by simp
  obtain I' res' where I': "int_metrica I' = rt_metrica rt"
    and L: "laco_raio rt ?I (i + 1) (avanca rt e) (res\<lparr>res_passos := i\<rparr>)
        = laco_raio rt I' (i + 1 + int k) ((avanca rt ^^ k) (avanca rt e)) res'"
    using Suc.IH [OF rest b m] by blast
  have "laco_raio rt I i e res
      = laco_raio rt I' (i + int (Suc k)) ((avanca rt ^^ Suc k) e) res'"
    unfolding step L by (simp add: funpow_swap1 add.assoc)
  with I' show ?case by blast
qed

text \<open>
  C2. Let \<open>k \<le> 10000\<close> be such that no termination test holds in the states at the
  start of iterations \<open>0, \<dots>, k - 1\<close> and, if \<open>k < 10000\<close>, some test holds in the state of
  iteration \<open>k\<close>. If \<open>k = 10000\<close>, the ray returns the magenta pixel \<open>(1, 0, 1)\<close> with
  destination \<open>ERRO\<close>. Otherwise it returns after \<open>k\<close> steps with the result of the first
  test that holds in that state, in the order: horizon, \<open>r < 1.001 r\<^sub>s\<close>, black; disk,
  \<open>|\<theta> - \<pi>/2| < 0.01\<close> and \<open>r\<^sub>i\<^sub>n \<le> r \<le> r\<^sub>o\<^sub>u\<^sub>t\<close>, the observed intensity of the disk at
  \<open>(r, \<phi>)\<close>; escape, \<open>r > 2 r\<^sub>o\<^sub>b\<^sub>s\<close>, the colour of the celestial background at \<open>(\<theta>, \<phi>)\<close>.
\<close>

theorem tracar_raio_eventos:
  assumes "k \<le> 10000"
    and "\<forall>j<k. \<not> evento rt (estado_no_passo rt alfa beta j)"
    and "k < 10000 \<longrightarrow> evento rt (estado_no_passo rt alfa beta k)"
  shows "res_cor (tracar_raio rt alfa beta)
           = (if k = 10000 then \<lparr>px_r = 1, px_g = 0, px_b = 1\<rparr>
              else cor_do_evento rt (estado_no_passo rt alfa beta k))
       \<and> res_destino (tracar_raio rt alfa beta)
           = (if k = 10000 then ERRO
              else if no_horizonte rt (estado_no_passo rt alfa beta k) then HORIZONTE
              else if atinge_disco rt (estado_no_passo rt alfa beta k) then DISCO
              else INFINITO)
       \<and> (k < 10000 \<longrightarrow> res_passos (tracar_raio rt alfa beta) = int k)"
proof -
  let ?res = "\<lparr>res_destino = INFINITO, res_r_impacto = None, res_phi_impacto = None,
                       res_theta_impacto = None, res_passos = 0,
                       res_cor = \<lparr>px_r = 0, px_g = 0, px_b = 0\<rparr>\<rparr>"
  let ?I = "IntegradorGeodesico_novo (rt_metrica rt) passo_inicial"
  let ?e = "estado_inicial rt alfa beta"
  have T: "tracar_raio rt alfa beta = laco_raio rt ?I 0 ?e ?res"
    by (simp add: tracar_raio_def Let_def)
  have m: "int_metrica ?I = rt_metrica rt"
    by (simp add: IntegradorGeodesico_novo_def)
  have free: "\<forall>j<k. \<not> evento rt ((avanca rt ^^ j) ?e)"
    using assms(2) by (simp add: estado_no_passo_def)
  have b: "0 + int k \<le> max_passos"
    using assms(1) by (simp add: max_passos_def)
  obtain I' res' where
    L: "laco_raio rt ?I 0 ?e ?res = laco_raio rt I' (0 + int k) ((avanca rt ^^ k) ?e) res'"
    using laco_raio_k_passos [OF free b m] by blast
  then have L': "tracar_raio rt alfa beta
      = laco_raio rt I' (int k) (estado_no_passo rt alfa beta k) res'"
    by (simp add: T estado_no_passo_def)
  show ?thesis
  proof (cases "k = 10000")
    case True
    then have "\<not> int k < max_passos"
      by (simp add: max_passos_def)
    then show ?thesis
      unfolding L' using True by (simp add: laco_raio_esgotado)
  next
    case False
    then have lt: "int k < max_passos"
      using assms(1) by (simp add: max_passos_def)
    have ev: "evento rt (estado_no_passo rt alfa beta k)"
      using False assms(1,3) by simp
    show ?thesis
      unfolding L' using False assms(1) laco_raio_com_evento [OF lt ev] by simp
  qed
qed

lemma rt_unitario_campos:
  "rt_rs rt_unitario = 1" "met_rs (rt_metrica rt_unitario) = 1"
  "cam_r_observador (rt_camera rt_unitario) = 1.0201"
  "cam_theta_observador (rt_camera rt_unitario) = pi / 3"
  "dis_raio_interno (rt_disco rt_unitario) = 3"
  by (simp_all add: rt_unitario_def set_camera_def RayTracer_novo_def MetricaSchwarzschild_novo_def
      DiscoAcrecao_novo_def raio_schwarzschild_def Camera_padrao_def Let_def G_def C2_def C_def
      MASSA_SOL_def)

lemma estado_inicial_unitario:
  "estado_inicial rt_unitario 0 0
     = \<lparr>est_t = 0, est_r = 1.0201, est_theta = pi / 3, est_phi = 0,
        est_u_t = 10201 / 201, est_u_r = - 1, est_u_theta = 0, est_u_phi = 0\<rparr>"
  by (simp add: estado_inicial_def Let_def rt_unitario_campos)

lemma passo_unitario: "passo_inicial * sqrt (1.0201 / 1) = 0.101"
proof -
  have "sqrt (1.0201) = (1.01 :: real)"
    by (rule real_sqrt_unique) (simp_all add: power2_eq_square)
  then show ?thesis
    by (simp add: passo_inicial_def)
qed

lemma est_r_corrige_theta: "est_r (corrige_theta e) = est_r e"
  by (simp add: corrige_theta_def Let_def)

lemma combina_listas:
  "map (\<lambda>i. [a0, a1, a2, a3, a4, a5, a6, a7] ! i + c * [b0, b1, b2, b3, b4, b5, b6, b7] ! i)
       [0..<8]
     = [a0 + c * b0, a1 + c * b1, a2 + c * b2, a3 + c * b3,
        a4 + c * b4, a5 + c * b5, a6 + c * b6, a7 + c * (b7 :: real)]"
  by (simp add: upt_rec)

lemma derivs_radial_dentro:
  assumes "met_rs (int_metrica I) = 1" and "r \<le> 1"
  shows "derivs I [t, r, th, ph, ut, ur, 0, 0] = [ut, ur, 0, 0, 0, 0, 0, 0]"
  using assms
  by (simp add: derivs_def derivadas_geodesica_def Let_def
      christoffel_t_tr_def christoffel_r_tt_def christoffel_r_rr_def)

lemma derivs_radial_fora:
  assumes "met_rs (int_metrica I) = 1" and "1 < r"
  shows "derivs I [t, r, th, ph, ut, ur, 0, 0]
     = [ut, ur, 0, 0, - 2 * (1 / (2 * r * (r - 1))) * ut * ur,
        - (1 * (r - 1) / (2 * r * r * r)) * ut * ut - (- 1 / (2 * r * (r - 1))) * ur * ur, 0, 0]"
  using assms
  by (simp add: derivs_def derivadas_geodesica_def Let_def
      christoffel_t_tr_def christoffel_r_tt_def christoffel_r_rr_def)

lemma raio_apos_um_passo: "est_r (avanca rt_unitario (estado_inicial rt_unitario 0 0)) = 0.9191"
proof -
  define I where "I = IntegradorGeodesico_novo (rt_metrica rt_unitario) 0.101"
  define arr :: "real list" where "arr = [0, 1.0201, pi / 3, 0, 10201 / 201, - 1, 0, 0]"
  have m: "met_rs (int_metrica I) = 1" and p: "int_passo I = 0.101"
    by (simp_all add: I_def IntegradorGeodesico_novo_def rt_unitario_campos)
  have a: "como_array (estado_inicial rt_unitario 0 0) = arr"
    by (simp add: estado_inicial_unitario como_array_def arr_def)
  have k1: "derivs I arr = [10201 / 201, - 1, 0, 0, 100000000 / 40401, 0, 0, 0]"
    unfolding arr_def by (simp add: derivs_radial_fora [OF m])
  define t2 :: real where "t2 = 0 + 0.5 * 0.101 * (10201 / 201)"
  define U2 :: real where "U2 = 10201 / 201 + 0.5 * 0.101 * (100000000 / 40401)"
  have y2: "map (\<lambda>i. arr ! i + 0.5 * 0.101 * derivs I arr ! i) [0..<8]
      = [t2, 0.9696, pi / 3, 0, U2, - 1, 0, 0]"
    unfolding k1 unfolding arr_def combina_listas by (simp add: t2_def U2_def)
  have k2: "derivs I [t2, 0.9696, pi / 3, 0, U2, - 1, 0, 0] = [U2, - 1, 0, 0, 0, 0, 0, 0]"
    by (rule derivs_radial_dentro [OF m]) simp
  define t3 :: real where "t3 = 0 + 0.5 * 0.101 * U2"
  have y3: "map (\<lambda>i. arr ! i + 0.5 * 0.101 * [U2, - 1, 0, 0, 0, 0, 0, 0] ! i) [0..<8]
      = [t3, 0.9696, pi / 3, 0, 10201 / 201, - 1, 0, 0]"
    unfolding arr_def combina_listas by (simp add: t3_def)
  have k3: "derivs I [t3, 0.9696, pi / 3, 0, 10201 / 201, - 1, 0, 0]
      = [10201 / 201, - 1, 0, 0, 0, 0, 0, 0]"
    by (rule derivs_radial_dentro [OF m]) simp
  define t4 :: real where "t4 = 0 + 0.101 * (10201 / 201)"
  have y4: "map (\<lambda>i. arr ! i + 0.101 * [10201 / 201, - 1, 0, 0, 0, 0, 0, 0] ! i) [0..<8]
      = [t4, 0.9191, pi / 3, 0, 10201 / 201, - 1, 0, 0]"
    unfolding arr_def combina_listas by (simp add: t4_def)
  have k4: "derivs I [t4, 0.9191, pi / 3, 0, 10201 / 201, - 1, 0, 0]
      = [10201 / 201, - 1, 0, 0, 0, 0, 0, 0]"
    by (rule derivs_radial_dentro [OF m]) simp
  have "est_r (passo_rk4 I (estado_inicial rt_unitario 0 0)) = 0.9191"
    unfolding passo_rk4_def Let_def a p y2 k2 y3 k3 y4 k4
    unfolding k1 unfolding arr_def by (simp add: de_array_def upt_rec)
  then show ?thesis
    unfolding avanca_def est_r_corrige_theta I_def
    by (simp only: estado_inicial_unitario EstadoGeodesica.simps rt_unitario_campos passo_unitario)
qed

text \<open>
  On the concrete configuration the central ray meets no test in its initial state and
  the horizon test after one step.
\<close>

theorem tracar_raio_eventos_witness:
  "\<not> evento rt_unitario (estado_no_passo rt_unitario 0 0 0)
   \<and> evento rt_unitario (estado_no_passo rt_unitario 0 0 1)
   \<and> no_horizonte rt_unitario (estado_no_passo rt_unitario 0 0 1)
   \<and> res_cor (tracar_raio rt_unitario 0 0) = \<lparr>px_r = 0, px_g = 0, px_b = 0\<rparr>
   \<and> res_destino (tracar_raio rt_unitario 0 0) = HORIZONTE
   \<and> res_passos (tracar_raio rt_unitario 0 0) = 1"
proof -
  have s0: "estado_no_passo rt_unitario 0 0 0 = estado_inicial rt_unitario 0 0"
    by (simp add: estado_no_passo_def)
  have s1: "estado_no_passo rt_unitario 0 0 1 = avanca rt_unitario (estado_inicial rt_unitario 0 0)"
    by (simp add: estado_no_passo_def)
  have n0: "\<not> evento rt_unitario (estado_no_passo rt_unitario 0 0 0)"
    unfolding s0 estado_inicial_unitario
    by (simp add: evento_def no_horizonte_def atinge_disco_def escapou_def rt_unitario_campos)
  have h1: "no_horizonte rt_unitario (estado_no_passo rt_unitario 0 0 1)"
    unfolding s1 by (simp add: no_horizonte_def raio_apos_um_passo rt_unitario_campos)
  then have e1: "evento rt_unitario (estado_no_passo rt_unitario 0 0 1)"
    by (simp add: evento_def)
  have k: "(1::nat) \<le> 10000"
    by simp
  have livre: "\<forall>j<1. \<not> evento rt_unitario (estado_no_passo rt_unitario 0 0 j)"
    using n0 by simp
  have ev: "(1::nat) < 10000 \<longrightarrow> evento rt_unitario (estado_no_passo rt_unitario 0 0 1)"
    using e1 by simp
  have "res_cor (tracar_raio rt_unitario 0 0) = \<lparr>px_r = 0, px_g = 0, px_b = 0\<rparr>
      \<and> res_destino (tracar_raio rt_unitario 0 0) = HORIZONTE
      \<and> res_passos (tracar_raio rt_unitario 0 0) = 1"
    using tracar_raio_eventos [OF k livre ev] h1 by (simp add: cor_do_evento_def)
  with n0 e1 h1 show ?thesis
    by blast
qed

end
